theory Spec2Isabelle
  imports Main
begin

section \<open>JavaScript values\<close>

text \<open>
  Request bodies, query parameters, result rows and response bodies are JSON values.
  Numbers are integers here: the handlers only test a number for truthiness or compare a
  row count with zero, and a fraction behaves there like any non-zero integer.
  An object is an association list from property names to values.
\<close>

datatype jsval =
    JUndefined
  | JNull
  | JBool bool
  | JNum int
  | JStr string
  | JArr "jsval list"
  | JObj "(string \<times> jsval) list"

text \<open>Truthiness: \<open>undefined\<close>, \<open>null\<close>, \<open>false\<close>, \<open>0\<close> and \<open>''\<close> are falsy.\<close>

fun truthy :: "jsval \<Rightarrow> bool" where
  "truthy JUndefined = False"
| "truthy JNull = False"
| "truthy (JBool b) = b"
| "truthy (JNum n) = (n \<noteq> 0)"
| "truthy (JStr s) = (s \<noteq> [])"
| "truthy (JArr xs) = True"
| "truthy (JObj kvs) = True"

text \<open>The operators \<open>!v\<close> and \<open>a || b\<close>.\<close>

definition js_not :: "jsval \<Rightarrow> bool" where
  "js_not v = (\<not> truthy v)"

definition js_or :: "jsval \<Rightarrow> jsval \<Rightarrow> jsval" where
  "js_or a b = (if truthy a then a else b)"

text \<open>Decimal rendering of a non-negative number, as in a template literal.\<close>

definition digit_char :: "nat \<Rightarrow> char" where
  "digit_char k = ''0123456789'' ! k"

function dec_string :: "nat \<Rightarrow> string" where
  "dec_string n =
     (if n < 10 then [digit_char n] else dec_string (n div 10) @ [digit_char (n mod 10)])"
  by pat_completeness auto
termination
  by (relation "measure id") auto

declare dec_string.simps [simp del]

text \<open>
  Property reads. \<open>get_prop v k\<close> is \<open>v.k\<close> for a name \<open>k\<close> that no prototype
  defines (\<open>subject\<close>, \<open>grade\<close>, a column name); \<open>get_index v i\<close> is \<open>v[i]\<close>. The
  source reads properties only of values it has tested truthy or of driver results, so
  the read of a property of \<open>undefined\<close> or \<open>null\<close>, which throws, is never reached.
\<close>

fun get_prop :: "jsval \<Rightarrow> string \<Rightarrow> jsval" where
  "get_prop (JObj kvs) k = (case map_of kvs k of Some v \<Rightarrow> v | None \<Rightarrow> JUndefined)"
| "get_prop v k = JUndefined"

fun get_index :: "jsval \<Rightarrow> nat \<Rightarrow> jsval" where
  "get_index (JArr xs) i = (if i < length xs then xs ! i else JUndefined)"
| "get_index (JStr s) i = (if i < length s then JStr [s ! i] else JUndefined)"
| "get_index (JObj kvs) i = get_prop (JObj kvs) (dec_string i)"
| "get_index v i = JUndefined"

text \<open>
  \<open>v.length\<close> and \<open>v > 0\<close>. The source applies them to results of the driver only: the
  array of rows, and the number \<open>affectedRows\<close>.
\<close>

fun js_length :: "jsval \<Rightarrow> jsval" where
  "js_length (JArr xs) = JNum (int (length xs))"
| "js_length (JStr s) = JNum (int (length s))"
| "js_length v = JUndefined"

fun js_gt_zero :: "jsval \<Rightarrow> bool" where
  "js_gt_zero (JNum n) = (0 < n)"
| "js_gt_zero (JBool b) = b"
| "js_gt_zero v = False"

section \<open>The database\<close>

text \<open>
  A table is a list of rows, a row maps column names to values; a column with no entry
  holds NULL. Each table has an auto-increment counter for its \<open>id\<close>.
\<close>

type_synonym row = "(string \<times> jsval) list"

record db =
  table_rows :: "string \<Rightarrow> row list"
  next_id :: "string \<Rightarrow> nat"

text \<open>The column list of the insert of POST /applications.\<close>

definition application_columns :: "string list" where
  "application_columns =
     [''student_name'', ''phone_number'', ''student_id'', ''university'', ''course_id'',
      ''faculty'', ''major_subject'',
      ''subject1'', ''grade1'', ''subject2'', ''grade2'', ''subject3'', ''grade3'',
      ''subject4'', ''grade4'', ''subject5'', ''grade5'', ''subject6'', ''grade6'',
      ''subject7'', ''grade7'', ''subject8'', ''grade8'']"

text \<open>
  Modelled from the spec: the table declarations are not part of the source; the columns
  of each table are those of the data model (section 3), named as the statements of the
  source name them.
\<close>

definition columns :: "string \<Rightarrow> string list" where
  "columns t =
     (if t = ''users'' then
        [''id'', ''name'', ''email'', ''password'', ''user_type'', ''profile_picture'']
      else if t = ''institutions'' then
        [''id'', ''name'', ''number_of_students'', ''number_of_departments'',
         ''number_of_courses'', ''logo'']
      else if t = ''faculties'' then [''id'', ''name'', ''institution_id'']
      else if t = ''courses'' then [''id'', ''name'', ''faculty_id'', ''institution_id'']
      else if t = ''applications'' then ''id'' # application_columns
      else [])"

text \<open>The statements of the source. \<open>Insert_into t cols n\<close> has \<open>n\<close> placeholders.\<close>

datatype sel =
    Left_col string string
  | Right_col string string
  | Literal string string

datatype stmt =
    Select_star string
  | Select_cols "string list" string
  | Select_star_where string string
  | Insert_into string "string list" nat
  | Delete_where string string
  | Select_join "sel list" string string string string

text \<open>
  The environment of one request: the clock; the bcrypt library (\<open>None\<close> when the
  promise rejects); whether the query of this request fails on the connection or in the
  database for a reason of its own; whether writing an accepted upload to the disk fails,
  and with which error; and the database's reading of the expressions of a statement,
  which is not part of the source: the equality of its comparison (collation and
  coercions), the value of an expression \<open>`key` = value\<close> in the value list of an
  insert into a table, and the rows of a table that a condition
  \<open>column = `key` = value\<close> selects (\<open>None\<close> when the database rejects the expression).
\<close>

record env =
  date_now :: nat
  bcrypt_hash :: "jsval \<Rightarrow> nat \<Rightarrow> string option"
  bcrypt_compare :: "jsval \<Rightarrow> jsval \<Rightarrow> bool option"
  query_fails :: bool
  write_error :: "string option"
  sql_eq :: "jsval \<Rightarrow> jsval \<Rightarrow> bool"
  sql_assign_value :: "string \<Rightarrow> string \<Rightarrow> jsval \<Rightarrow> jsval option"
  sql_assign_rows :: "string \<Rightarrow> string \<Rightarrow> string \<Rightarrow> jsval \<Rightarrow> (row \<Rightarrow> bool) option"

text \<open>A stored \<open>undefined\<close> reads as NULL; other values read as they are stored.\<close>

fun sql_value :: "jsval \<Rightarrow> jsval" where
  "sql_value JUndefined = JNull"
| "sql_value v = v"

definition cell :: "row \<Rightarrow> string \<Rightarrow> jsval" where
  "cell r c = (case map_of r c of Some v \<Rightarrow> sql_value v | None \<Rightarrow> JNull)"

definition project :: "string list \<Rightarrow> row \<Rightarrow> jsval" where
  "project cols r = JObj (map (\<lambda>c. (c, cell r c)) cols)"

fun eval_sel :: "row \<Rightarrow> row \<Rightarrow> sel \<Rightarrow> string \<times> jsval" where
  "eval_sel a b (Left_col c name) = (name, cell a c)"
| "eval_sel a b (Right_col c name) = (name, cell b c)"
| "eval_sel a b (Literal s name) = (name, JStr s)"

definition ok_packet :: "nat \<Rightarrow> nat \<Rightarrow> jsval" where
  "ok_packet affected insert_id =
     JObj [(''affectedRows'', JNum (int affected)), (''insertId'', JNum (int insert_id))]"

subsection \<open>The driver's formatting of parameters\<close>

text \<open>
  The driver replaces each placeholder by the text of its parameter. A scalar becomes one
  literal (\<open>undefined\<close> and \<open>null\<close> become NULL). An array becomes the comma-separated
  list of its elements, a nested array a parenthesised list, any other element one
  literal, an object among them the string \<open>[object Object]\<close>. An object becomes the
  comma-separated list of \<open>`key` = value\<close> for its properties, the value formatted as an
  array element is, except that an array there is again a comma-separated list. The text
  of a parameter is kept as the list of the items that its commas separate.
\<close>

datatype sqlexp =
    Lit jsval
  | Group "sqlexp list"
  | Assign string "sqlexp option"

fun escape_plain :: "jsval \<Rightarrow> jsval" where
  "escape_plain JUndefined = JNull"
| "escape_plain (JObj kvs) = JStr ''[object Object]''"
| "escape_plain v = v"

fun array_to_list :: "jsval list \<Rightarrow> sqlexp list" where
  "array_to_list [] = []"
| "array_to_list (JArr ys # xs) = Group (array_to_list ys) # array_to_list xs"
| "array_to_list (v # xs) = Lit (escape_plain v) # array_to_list xs"

fun escape_nested :: "jsval \<Rightarrow> sqlexp list" where
  "escape_nested (JArr xs) = array_to_list xs"
| "escape_nested v = [Lit (escape_plain v)]"

fun object_to_values :: "(string \<times> jsval) list \<Rightarrow> sqlexp list" where
  "object_to_values [] = []"
| "object_to_values ((k, v) # kvs) =
     (case escape_nested v of
        [] \<Rightarrow> [Assign k None]
      | x # rest \<Rightarrow> Assign k (Some x) # rest)
     @ object_to_values kvs"

fun escape :: "jsval \<Rightarrow> sqlexp list" where
  "escape (JArr xs) = array_to_list xs"
| "escape (JObj kvs) = object_to_values kvs"
| "escape v = [Lit (escape_plain v)]"

text \<open>
  What the database makes of an item. A literal is its value, also in parentheses; a
  parenthesised list of no or of several items is rejected where one value is expected,
  and so is \<open>`key` =\<close> with nothing after it; \<open>`key` = value\<close> is read as the
  environment says.
\<close>

fun unparen :: "sqlexp \<Rightarrow> sqlexp" where
  "unparen (Group [x]) = unparen x"
| "unparen x = x"

definition literal_of :: "sqlexp \<Rightarrow> jsval option" where
  "literal_of x = (case unparen x of Lit v \<Rightarrow> Some v | _ \<Rightarrow> None)"

definition insert_value :: "env \<Rightarrow> string \<Rightarrow> sqlexp \<Rightarrow> jsval option" where
  "insert_value e t x =
     (case unparen x of
        Lit v \<Rightarrow> Some v
      | Group xs \<Rightarrow> None
      | Assign k None \<Rightarrow> None
      | Assign k (Some y) \<Rightarrow>
          (case literal_of y of None \<Rightarrow> None | Some v \<Rightarrow> sql_assign_value e t k v))"

text \<open>
  The condition \<open>WHERE c = ?\<close> with its parameter: it needs exactly one item after the
  equality sign.
\<close>

definition where_pred :: "env \<Rightarrow> string \<Rightarrow> string \<Rightarrow> jsval \<Rightarrow> (row \<Rightarrow> bool) option" where
  "where_pred e t c p =
     (case escape p of
        [x] \<Rightarrow>
          (case unparen x of
             Lit v \<Rightarrow> Some (\<lambda>r. sql_eq e (cell r c) v)
           | Group xs \<Rightarrow> None
           | Assign k None \<Rightarrow> None
           | Assign k (Some y) \<Rightarrow>
               (case literal_of y of None \<Rightarrow> None | Some v \<Rightarrow> sql_assign_rows e t c k v))
      | _ \<Rightarrow> None)"

subsection \<open>Running a statement\<close>

text \<open>
  Running a statement with its parameters: \<open>None\<close> is a rejected query. Placeholders are
  filled from the parameters in order and surplus parameters are dropped. The database
  rejects a statement with a placeholder left unfilled or replaced by an empty text, an
  item it cannot read, and an insert whose values, counted after the formatting, are not
  as many as its columns.
\<close>

fun run_stmt :: "env \<Rightarrow> stmt \<Rightarrow> jsval list \<Rightarrow> db \<Rightarrow> jsval option \<times> db" where
  "run_stmt e (Select_star t) ps d =
     (Some (JArr (map (project (columns t)) (table_rows d t))), d)"
| "run_stmt e (Select_cols cols t) ps d =
     (Some (JArr (map (project cols) (table_rows d t))), d)"
| "run_stmt e (Select_star_where t c) ps d =
     (case ps of
        [] \<Rightarrow> (None, d)
      | p # rest \<Rightarrow>
          (case where_pred e t c p of
             None \<Rightarrow> (None, d)
           | Some selected \<Rightarrow>
               (Some (JArr (map (project (columns t)) (filter selected (table_rows d t)))),
                d)))"
| "run_stmt e (Insert_into t cols n) ps d =
     (if length ps < n \<or> list_ex (\<lambda>p. escape p = []) (take n ps) then (None, d)
      else
        (case those (map (insert_value e t) (concat (map escape (take n ps)))) of
           None \<Rightarrow> (None, d)
         | Some vals \<Rightarrow>
             if length vals = length cols then
               (Some (ok_packet 1 (next_id d t)),
                d\<lparr>table_rows := (table_rows d)
                     (t := table_rows d t @
                        [zip cols vals @ [(''id'', JNum (int (next_id d t)))]]),
                  next_id := (next_id d)(t := Suc (next_id d t))\<rparr>)
             else (None, d)))"
| "run_stmt e (Delete_where t c) ps d =
     (case ps of
        [] \<Rightarrow> (None, d)
      | p # rest \<Rightarrow>
          (case where_pred e t c p of
             None \<Rightarrow> (None, d)
           | Some selected \<Rightarrow>
               (Some (ok_packet (length (filter selected (table_rows d t))) 0),
                d\<lparr>table_rows := (table_rows d)
                     (t := filter (\<lambda>r. \<not> selected r) (table_rows d t))\<rparr>)))"
| "run_stmt e (Select_join sels t1 t2 c1 c2) ps d =
     (Some (JArr (concat (map (\<lambda>a. map (\<lambda>b. JObj (map (eval_sel a b) sels))
                    (filter (\<lambda>b. sql_eq e (cell a c1) (cell b c2)) (table_rows d t2)))
                  (table_rows d t1)))), d)"

definition query :: "env \<Rightarrow> stmt \<Rightarrow> jsval list \<Rightarrow> db \<Rightarrow> jsval option \<times> db" where
  "query e s ps d = (if query_fails e then (None, d) else run_stmt e s ps d)"

section \<open>Requests, responses and uploads\<close>

record file_part =
  originalname :: string
  mimetype :: string

record stored_file =
  destination :: string
  filename :: string
  path :: string

text \<open>
  A request: the parsed body (JSON, or the text fields of a multipart form); the first
  file part sent under the route's upload field; the \<open>:id\<close> of the URL; whether the body
  parser raises an error (a JSON body that does not parse, or is too large); whether the
  form carries a file part that \<open>upload.single\<close> does not expect (one under another field
  name, or a second one under the upload field); the error of the form parser, if the
  multipart form is malformed; and whether the \<open>:id\<close> segment of the URL cannot be
  percent-decoded. \<open>req.file\<close>, which the upload middleware sets, is passed to the two
  handlers behind it as an argument of its own.
\<close>

record request =
  req_body :: "(string \<times> jsval) list"
  req_upload :: "file_part option"
  req_id :: string
  body_parse_error :: bool
  unexpected_file :: bool
  form_error :: "string option"
  id_undecodable :: bool

record response =
  status :: nat
  json :: jsval

text \<open>
  What a handler leaves behind: the response (\<open>None\<close> when the handler's promise
  rejects before any response is sent), the database, and the statements it passed to
  \<open>query\<close> with their parameters.
\<close>

record outcome =
  response :: "response option"
  database :: db
  executed :: "(stmt \<times> jsval list) list"

definition respond :: "nat \<Rightarrow> jsval \<Rightarrow> db \<Rightarrow> (stmt \<times> jsval list) list \<Rightarrow> outcome" where
  "respond st v d tr = \<lparr>response = Some \<lparr>status = st, json = v\<rparr>, database = d, executed = tr\<rparr>"

definition error_body :: "string \<Rightarrow> jsval" where
  "error_body msg = JObj [(''error'', JStr msg)]"

definition message_body :: "string \<Rightarrow> jsval" where
  "message_body msg = JObj [(''message'', JStr msg)]"

definition body_field :: "request \<Rightarrow> string \<Rightarrow> jsval" where
  "body_field req k = (case map_of (req_body req) k of Some v \<Rightarrow> v | None \<Rightarrow> JUndefined)"

subsection \<open>The upload middleware\<close>

text \<open>\<open>RegExp.test\<close> of an alternation of literals: some literal occurs in the string.\<close>

fun starts_with :: "string \<Rightarrow> string \<Rightarrow> bool" where
  "starts_with [] s = True"
| "starts_with (p # ps) [] = False"
| "starts_with (p # ps) (c # cs) = (p = c \<and> starts_with ps cs)"

fun occurs_in :: "string \<Rightarrow> string \<Rightarrow> bool" where
  "occurs_in p [] = (p = [])"
| "occurs_in p (c # cs) = (starts_with p (c # cs) \<or> occurs_in p cs)"

definition regex_test :: "string list \<Rightarrow> string \<Rightarrow> bool" where
  "regex_test alternatives s = list_ex (\<lambda>p. occurs_in p s) alternatives"

definition filetypes :: "string list" where
  "filetypes = [''jpeg'', ''jpg'', ''png'', ''gif'']"

definition fileFilter :: "file_part \<Rightarrow> string + bool" where
  "fileFilter file =
     (let mimetype_ok = regex_test filetypes (mimetype file) in
      if mimetype_ok then Inr True
      else Inl ''Invalid file type. Only JPEG, PNG, and GIF are allowed.'')"

definition storage_destination :: "string" where
  "storage_destination = ''uploads/''"

definition storage_filename :: "env \<Rightarrow> file_part \<Rightarrow> string" where
  "storage_filename e file = dec_string (date_now e) @ ''_'' @ originalname file"

text \<open>
  \<open>upload.single\<close>. It passes an error to \<open>next\<close> when the form is malformed, when a
  file part arrives that it does not expect, when the filter rejects the part, and when
  writing the accepted part fails. Otherwise, without a file part \<open>req.file\<close> stays
  undefined, and an accepted part is written under the destination with the storage's
  file name and described in \<open>req.file\<close>. The original name of a part has no directory
  component, so joining destination and file name is concatenation. When several of the
  errors occur in one request, the middleware passes on the first it meets, which depends
  on the order of the parts and on timing; the order below is one of them, and nothing
  that follows depends on which error of a failing upload is the one passed on.
\<close>

definition upload_single :: "env \<Rightarrow> request \<Rightarrow> string + stored_file option" where
  "upload_single e req =
     (case form_error req of
        Some err \<Rightarrow> Inl err
      | None \<Rightarrow>
          if unexpected_file req then Inl ''Unexpected field''
          else
            (case req_upload req of
               None \<Rightarrow> Inr None
             | Some file \<Rightarrow>
                 (case fileFilter file of
                    Inl err \<Rightarrow> Inl err
                  | Inr accepted \<Rightarrow>
                      if accepted then
                        (case write_error e of
                           Some err \<Rightarrow> Inl err
                         | None \<Rightarrow>
                             Inr (Some \<lparr>destination = storage_destination,
                                        filename = storage_filename e file,
                                        path = storage_destination @ storage_filename e file\<rparr>))
                      else Inr None)))"

section \<open>The route handlers\<close>

definition get_users :: "env \<Rightarrow> request \<Rightarrow> db \<Rightarrow> outcome" where
  "get_users e req d =
     (let sql = Select_star ''users'' in
      case query e sql [] d of
        (Some data, d') \<Rightarrow> respond 200 data d' [(sql, [])]
      | (None, d') \<Rightarrow>
          respond 500 (error_body ''Database error while fetching users.'') d' [(sql, [])])"

definition get_institutions :: "env \<Rightarrow> request \<Rightarrow> db \<Rightarrow> outcome" where
  "get_institutions e req d =
     (let sql = Select_star ''institutions'' in
      case query e sql [] d of
        (Some data, d') \<Rightarrow> respond 200 data d' [(sql, [])]
      | (None, d') \<Rightarrow>
          respond 500 (error_body ''Database error while fetching institutions.'') d' [(sql, [])])"

definition register_columns :: "string list" where
  "register_columns = [''name'', ''email'', ''password'', ''user_type'', ''profile_picture'']"

definition post_register :: "env \<Rightarrow> request \<Rightarrow> stored_file option \<Rightarrow> db \<Rightarrow> outcome" where
  "post_register e req req_file d =
     (let name = body_field req ''name'';
          email = body_field req ''email'';
          password = body_field req ''password'';
          user_type = body_field req ''user_type''
      in
      if js_not name \<or> js_not email \<or> js_not password \<or> js_not user_type
         \<or> req_file = None
      then respond 400
             (error_body ''Please provide name, email, password, user_type, and a profile picture.'')
             d []
      else
        (case req_file of
           None \<Rightarrow> respond 400
             (error_body ''Please provide name, email, password, user_type, and a profile picture.'')
             d []
         | Some file \<Rightarrow>
             (case bcrypt_hash e password 10 of
                None \<Rightarrow> \<lparr>response = None, database = d, executed = []\<rparr>
              | Some hashedPassword \<Rightarrow>
                  (let sql = Insert_into ''users'' register_columns 5;
                       params = [name, email, JStr hashedPassword, user_type, JStr (path file)]
                   in
                   case query e sql params d of
                     (Some result, d') \<Rightarrow>
                       respond 201 (message_body ''User registered successfully.'') d'
                         [(sql, params)]
                   | (None, d') \<Rightarrow>
                       respond 500 (error_body ''Database error during registration.'') d'
                         [(sql, params)]))))"

definition login_user :: "jsval \<Rightarrow> jsval" where
  "login_user user =
     JObj [(''id'', get_prop user ''id''),
           (''user_type'', get_prop user ''user_type''),
           (''name'', get_prop user ''name''),
           (''email'', get_prop user ''email''),
           (''profile_picture'', get_prop user ''profile_picture'')]"

definition post_login :: "env \<Rightarrow> request \<Rightarrow> db \<Rightarrow> outcome" where
  "post_login e req d =
     (let email = body_field req ''email'';
          password = body_field req ''password''
      in
      if js_not email \<or> js_not password
      then respond 400 (error_body ''Please provide both email and password.'') d []
      else
        (let sql = Select_star_where ''users'' ''email'' in
         case query e sql [email] d of
           (None, d') \<Rightarrow> respond 500 (error_body ''Database query error.'') d' [(sql, [email])]
         | (Some data, d') \<Rightarrow>
             if js_gt_zero (js_length data) then
               (let user = get_index data 0 in
                case bcrypt_compare e password (get_prop user ''password'') of
                  None \<Rightarrow>
                    respond 500 (error_body ''Database query error.'') d' [(sql, [email])]
                | Some isPasswordValid \<Rightarrow>
                    if isPasswordValid then
                      respond 200
                        (JObj [(''message'', JStr ''Login successful''),
                               (''user'', login_user user)])
                        d' [(sql, [email])]
                    else
                      respond 401 (error_body ''Invalid email or password.'') d'
                        [(sql, [email])])
             else respond 401 (error_body ''Invalid email or password.'') d' [(sql, [email])]))"

definition institution_columns :: "string list" where
  "institution_columns =
     [''name'', ''number_of_students'', ''number_of_departments'', ''number_of_courses'',
      ''logo'']"

definition post_institutions :: "env \<Rightarrow> request \<Rightarrow> stored_file option \<Rightarrow> db \<Rightarrow> outcome" where
  "post_institutions e req req_file d =
     (let name = body_field req ''name'';
          number_of_students = body_field req ''number_of_students'';
          number_of_departments = body_field req ''number_of_departments'';
          number_of_courses = body_field req ''number_of_courses''
      in
      if js_not name \<or> js_not number_of_students \<or> js_not number_of_departments
         \<or> js_not number_of_courses \<or> req_file = None
      then respond 400 (error_body ''Please provide all required fields and a logo.'') d []
      else
        (case req_file of
           None \<Rightarrow>
             respond 400 (error_body ''Please provide all required fields and a logo.'') d []
         | Some file \<Rightarrow>
             (let sql = Insert_into ''institutions'' institution_columns 5;
                  params = [name, number_of_students, number_of_departments,
                            number_of_courses, JStr (path file)]
              in
              case query e sql params d of
                (Some result, d') \<Rightarrow>
                  if js_gt_zero (get_prop result ''affectedRows'') then
                    respond 201
                      (JObj [(''message'', JStr ''Institution added successfully.''),
                             (''institution'',
                              JObj [(''id'', get_prop result ''insertId''),
                                    (''name'', name),
                                    (''number_of_students'', number_of_students),
                                    (''number_of_departments'', number_of_departments),
                                    (''number_of_courses'', number_of_courses),
                                    (''logo'', JStr (path file))])])
                      d' [(sql, params)]
                  else
                    respond 500 (error_body ''Failed to add institution.'') d' [(sql, params)]
              | (None, d') \<Rightarrow>
                  respond 500 (error_body ''Database error during adding institution.'') d'
                    [(sql, params)])))"

definition get_university :: "env \<Rightarrow> request \<Rightarrow> db \<Rightarrow> outcome" where
  "get_university e req d =
     (let sql = Select_cols [''id'', ''name'', ''number_of_students'', ''number_of_departments'',
                             ''number_of_courses'', ''logo''] ''institutions'' in
      case query e sql [] d of
        (Some results, d') \<Rightarrow> respond 200 results d' [(sql, [])]
      | (None, d') \<Rightarrow>
          respond 500 (error_body ''Database error while fetching universities.'') d'
            [(sql, [])])"

definition post_faculties :: "env \<Rightarrow> request \<Rightarrow> db \<Rightarrow> outcome" where
  "post_faculties e req d =
     (let name = body_field req ''name'';
          institution_id = body_field req ''institution_id''
      in
      if js_not name \<or> js_not institution_id
      then respond 400 (error_body ''Please provide both name and institution.'') d []
      else
        (let sql = Insert_into ''faculties'' [''name'', ''institution_id''] 2;
             params = [name, institution_id]
         in
         case query e sql params d of
           (Some result, d') \<Rightarrow>
             respond 201 (message_body ''Faculty added successfully.'') d' [(sql, params)]
         | (None, d') \<Rightarrow>
             respond 500 (error_body ''Database error during adding faculty.'') d'
               [(sql, params)]))"

definition post_courses :: "env \<Rightarrow> request \<Rightarrow> db \<Rightarrow> outcome" where
  "post_courses e req d =
     (let name = body_field req ''name'';
          faculty = body_field req ''faculty'';
          institution = body_field req ''institution''
      in
      if js_not name \<or> js_not faculty \<or> js_not institution
      then respond 400 (error_body ''Please provide name, faculty, and institution.'') d []
      else
        (let sql = Insert_into ''courses'' [''name'', ''faculty_id'', ''institution_id''] 3;
             params = [name, faculty, institution]
         in
         case query e sql params d of
           (Some result, d') \<Rightarrow>
             respond 201 (message_body ''Course added successfully.'') d' [(sql, params)]
         | (None, d') \<Rightarrow>
             respond 500 (error_body ''Database error during adding course.'') d'
               [(sql, params)]))"

definition requirements_text :: "string" where
  "requirements_text = ''High School Diploma, Pass in relevant subjects''"

definition courses_sql :: "stmt" where
  "courses_sql =
     Select_join [Left_col ''id'' ''id'', Left_col ''name'' ''name'',
                  Right_col ''name'' ''university'', Literal requirements_text ''requirements'']
       ''courses'' ''institutions'' ''institution_id'' ''id''"

definition get_courses :: "env \<Rightarrow> request \<Rightarrow> db \<Rightarrow> outcome" where
  "get_courses e req d =
     (let sql = courses_sql in
      case query e sql [] d of
        (Some data, d') \<Rightarrow> respond 200 data d' [(sql, [])]
      | (None, d') \<Rightarrow>
          respond 500 (error_body ''Database error while fetching courses.'') d' [(sql, [])])"

definition get_faculties :: "env \<Rightarrow> request \<Rightarrow> db \<Rightarrow> outcome" where
  "get_faculties e req d =
     (let sql = Select_cols [''id'', ''name'', ''institution_id''] ''faculties'' in
      case query e sql [] d of
        (Some results, d') \<Rightarrow> respond 200 results d' [(sql, [])]
      | (None, d') \<Rightarrow>
          respond 500 (error_body ''Database error while fetching faculties.'') d' [(sql, [])])"

definition delete_institution :: "env \<Rightarrow> request \<Rightarrow> db \<Rightarrow> outcome" where
  "delete_institution e req d =
     (let institutionId = JStr (req_id req);
          sql = Delete_where ''institutions'' ''id''
      in
      case query e sql [institutionId] d of
        (Some result, d') \<Rightarrow>
          if js_gt_zero (get_prop result ''affectedRows'') then
            respond 200 (message_body ''Institution deleted successfully.'') d'
              [(sql, [institutionId])]
          else
            respond 404 (error_body ''Institution not found.'') d' [(sql, [institutionId])]
      | (None, d') \<Rightarrow>
          respond 500 (error_body ''Database error during deleting institution.'') d'
            [(sql, [institutionId])])"

subsection \<open>Applications\<close>

text \<open>The loop \<open>for (let i = 0; i < 8; i++)\<close> that fills \<open>subjects\<close> and \<open>gradesValues\<close>.\<close>

function grades_loop :: "jsval \<Rightarrow> nat \<Rightarrow> jsval list \<Rightarrow> jsval list \<Rightarrow> jsval list \<times> jsval list" where
  "grades_loop grades i subjects gradesValues =
     (if i < 8 then
        (if truthy (get_index grades i) then
           grades_loop grades (i + 1)
             (subjects @ [js_or (get_prop (get_index grades i) ''subject'') (JStr [])])
             (gradesValues @ [js_or (get_prop (get_index grades i) ''grade'') (JStr [])])
         else
           grades_loop grades (i + 1) (subjects @ [JStr []]) (gradesValues @ [JStr []]))
      else (subjects, gradesValues))"
  by pat_completeness auto
termination
  by (relation "measure (\<lambda>(grades, i, subjects, gradesValues). 8 - i)") auto

declare grades_loop.simps [simp del]

definition application_params :: "request \<Rightarrow> jsval list" where
  "application_params req =
     (case grades_loop (body_field req ''grades'') 0 [] [] of
        (subjects, gradesValues) \<Rightarrow>
          [body_field req ''studentName'', body_field req ''phoneNumber'',
           body_field req ''student_id'', body_field req ''university'',
           body_field req ''course_id'', body_field req ''faculty'',
           body_field req ''majorSubject'']
          @ map (\<lambda>subject. js_or subject (JStr [])) subjects
          @ map (\<lambda>grade. js_or grade (JStr [])) gradesValues)"

definition applications_sql :: "stmt" where
  "applications_sql = Insert_into ''applications'' application_columns 20"

definition post_applications :: "env \<Rightarrow> request \<Rightarrow> db \<Rightarrow> outcome" where
  "post_applications e req d =
     (if js_not (body_field req ''studentName'') \<or> js_not (body_field req ''phoneNumber'')
         \<or> js_not (body_field req ''student_id'') \<or> js_not (body_field req ''university'')
         \<or> js_not (body_field req ''course_id'') \<or> js_not (body_field req ''faculty'')
         \<or> js_not (body_field req ''majorSubject'') \<or> js_not (body_field req ''grades'')
      then respond 400 (error_body ''All fields are required.'') d []
      else
        (let sqlQuery = applications_sql;
             params = application_params req
         in
         case query e sqlQuery params d of
           (Some result, d') \<Rightarrow>
             respond 201
               (JObj [(''message'', JStr ''Application submitted successfully''),
                      (''applicationId'', get_prop result ''insertId'')])
               d' [(sqlQuery, params)]
         | (None, d') \<Rightarrow>
             respond 500 (error_body ''Database error during application submission.'') d'
               [(sqlQuery, params)]))"

definition get_root :: "env \<Rightarrow> request \<Rightarrow> db \<Rightarrow> outcome" where
  "get_root e req d = respond 200 (JStr ''Server is running.'') d []"

subsection \<open>Routing\<close>

datatype route =
    GET_users
  | GET_institutions
  | POST_register
  | POST_login
  | POST_institutions
  | GET_university
  | POST_faculties
  | POST_courses
  | GET_courses
  | GET_faculties
  | DELETE_institutions_id
  | POST_applications
  | GET_root

text \<open>
  The error middleware is registered after the body parser and before the routes: it
  answers an error of the body parser. Errors raised behind it fall to the framework's
  final handler, which answers with the status of the error if it has one and with 500
  otherwise: 500 for an error of the upload middleware, 400 for an \<open>:id\<close> segment that
  cannot be decoded, which the router finds when it matches the route.
\<close>

definition error_middleware :: "db \<Rightarrow> outcome" where
  "error_middleware d = respond 500 (error_body ''Something went wrong!'') d []"

definition final_handler :: "nat \<Rightarrow> string \<Rightarrow> db \<Rightarrow> outcome" where
  "final_handler st err d = respond st (JStr err) d []"

definition with_upload ::
  "(env \<Rightarrow> request \<Rightarrow> stored_file option \<Rightarrow> db \<Rightarrow> outcome) \<Rightarrow> env \<Rightarrow> request \<Rightarrow> db \<Rightarrow> outcome" where
  "with_upload handler e req d =
     (case upload_single e req of
        Inl err \<Rightarrow> final_handler 500 err d
      | Inr req_file \<Rightarrow> handler e req req_file d)"

fun handler_of :: "route \<Rightarrow> env \<Rightarrow> request \<Rightarrow> db \<Rightarrow> outcome" where
  "handler_of GET_users = get_users"
| "handler_of GET_institutions = get_institutions"
| "handler_of POST_register = with_upload post_register"
| "handler_of POST_login = post_login"
| "handler_of POST_institutions = with_upload post_institutions"
| "handler_of GET_university = get_university"
| "handler_of POST_faculties = post_faculties"
| "handler_of POST_courses = post_courses"
| "handler_of GET_courses = get_courses"
| "handler_of GET_faculties = get_faculties"
| "handler_of DELETE_institutions_id = delete_institution"
| "handler_of POST_applications = post_applications"
| "handler_of GET_root = get_root"

definition serve :: "route \<Rightarrow> env \<Rightarrow> request \<Rightarrow> db \<Rightarrow> outcome" where
  "serve r e req d =
     (if body_parse_error req then error_middleware d
      else if r = DELETE_institutions_id \<and> id_undecodable req
      then final_handler 400 ''Failed to decode param'' d
      else handler_of r e req d)"

section \<open>Vocabulary of the properties\<close>

definition status_of :: "outcome \<Rightarrow> nat option" where
  "status_of out = map_option status (response out)"

definition has_error_message :: "outcome \<Rightarrow> bool" where
  "has_error_message out =
     (case response out of
        None \<Rightarrow> False
      | Some r \<Rightarrow> (case get_prop (json r) ''error'' of JStr msg \<Rightarrow> msg \<noteq> [] | _ \<Rightarrow> False))"

text \<open>The fields each POST handler tests, and the two routes that also test \<open>req.file\<close>.\<close>

fun required_fields :: "route \<Rightarrow> string list" where
  "required_fields POST_register = [''name'', ''email'', ''password'', ''user_type'']"
| "required_fields POST_login = [''email'', ''password'']"
| "required_fields POST_institutions =
     [''name'', ''number_of_students'', ''number_of_departments'', ''number_of_courses'']"
| "required_fields POST_faculties = [''name'', ''institution_id'']"
| "required_fields POST_courses = [''name'', ''faculty'', ''institution'']"
| "required_fields POST_applications =
     [''studentName'', ''phoneNumber'', ''student_id'', ''university'', ''course_id'',
      ''faculty'', ''majorSubject'', ''grades'']"
| "required_fields r = []"





text \<open>
  The rows that the query of POST /login selects for an email (none when the database
  rejects the condition), and the rows that the query of DELETE /institutions/:id
  selects for an id, which is always a string.
\<close>

definition matching_users :: "env \<Rightarrow> db \<Rightarrow> jsval \<Rightarrow> row list" where
  "matching_users e d email =
     (case where_pred e ''users'' ''email'' email of
        None \<Rightarrow> []
      | Some selected \<Rightarrow> filter selected (table_rows d ''users''))"

definition matching_institutions :: "env \<Rightarrow> db \<Rightarrow> string \<Rightarrow> row list" where
  "matching_institutions e d ident =
     filter (\<lambda>r. sql_eq e (cell r ''id'') (JStr ident)) (table_rows d ''institutions'')"


text \<open>The two rejections of POST /login.\<close>

definition unknown_email :: "env \<Rightarrow> request \<Rightarrow> db \<Rightarrow> bool" where
  "unknown_email e req d = (matching_users e d (body_field req ''email'') = [])"

definition wrong_password :: "env \<Rightarrow> request \<Rightarrow> db \<Rightarrow> bool" where
  "wrong_password e req d =
     (case matching_users e d (body_field req ''email'') of
        [] \<Rightarrow> False
      | u # us \<Rightarrow>
          bcrypt_compare e (body_field req ''password'') (cell u ''password'') = Some False)"


text \<open>
  A rejection by validation: 400 with a message, no statement passed to \<open>query\<close>, the
  database as it was.
\<close>

definition rejected_400 :: "outcome \<Rightarrow> db \<Rightarrow> bool" where
  "rejected_400 out d =
     (status_of out = Some 400 \<and> has_error_message out \<and> executed out = [] \<and> database out = d)"

definition absent :: "request \<Rightarrow> string \<Rightarrow> bool" where
  "absent req k = (body_field req k = JUndefined)"

definition falsy_present :: "request \<Rightarrow> string \<Rightarrow> bool" where
  "falsy_present req k = (body_field req k \<in> {JNum 0, JStr [], JBool False})"

definition without_field :: "string \<Rightarrow> request \<Rightarrow> request" where
  "without_field k req = req\<lparr>req_body := filter (\<lambda>kv. fst kv \<noteq> k) (req_body req)\<rparr>"

text \<open>A parameter that the driver formats as one literal.\<close>

fun scalar :: "jsval \<Rightarrow> bool" where
  "scalar (JArr xs) = False"
| "scalar (JObj kvs) = False"
| "scalar v = True"

text \<open>
  The subject and the grade that the loop of POST /applications takes for index \<open>i\<close>:
  the component of \<open>grades[i]\<close> when both are truthy, the empty string otherwise.
\<close>

definition subject_at :: "jsval \<Rightarrow> nat \<Rightarrow> jsval" where
  "subject_at grades i =
     (if truthy (get_index grades i)
      then js_or (get_prop (get_index grades i) ''subject'') (JStr []) else JStr [])"

definition grade_at :: "jsval \<Rightarrow> nat \<Rightarrow> jsval" where
  "grade_at grades i =
     (if truthy (get_index grades i)
      then js_or (get_prop (get_index grades i) ''grade'') (JStr []) else JStr [])"

section \<open>Sample inputs\<close>

text \<open>
  An environment to run examples in. Its two bcrypt functions are stand-ins with the
  library's interface (strings only, a rejected promise otherwise), and its database
  rejects every expression \<open>`key` = value\<close>; no theorem below depends on them except
  the examples.
\<close>

definition demo_env :: env where
  "demo_env =
     \<lparr>date_now = 1700000000000,
      bcrypt_hash = (\<lambda>v cost. case v of
                        JStr s \<Rightarrow>
                          Some ((if cost = 10 then ''$2b$10$'' else ''$2b$04$'') @ rev s)
                      | _ \<Rightarrow> None),
      bcrypt_compare = (\<lambda>v h. case (v, h) of
                           (JStr s, JStr t) \<Rightarrow> Some (t = ''$2b$10$'' @ rev s)
                         | _ \<Rightarrow> None),
      query_fails = False,
      write_error = None,
      sql_eq = (\<lambda>a b. a = b),
      sql_assign_value = (\<lambda>t k v. None),
      sql_assign_rows = (\<lambda>t c k v. None)\<rparr>"

definition empty_db :: db where
  "empty_db = \<lparr>table_rows = (\<lambda>t. []), next_id = (\<lambda>t. 1)\<rparr>"

definition ann_row :: "string \<Rightarrow> row" where
  "ann_row hash =
     [(''id'', JNum 1), (''name'', JStr ''Ann''), (''email'', JStr ''ann@example.org''),
      (''password'', JStr hash), (''user_type'', JStr ''student''),
      (''profile_picture'', JStr ''uploads/1_ann.png'')]"

definition users_db :: "string \<Rightarrow> db" where
  "users_db hash =
     \<lparr>table_rows = (\<lambda>t. if t = ''users'' then [ann_row hash] else []), next_id = (\<lambda>t. 2)\<rparr>"

definition catalog_db :: db where
  "catalog_db =
     \<lparr>table_rows = (\<lambda>t.
        if t = ''institutions'' then [[(''id'', JNum 1), (''name'', JStr ''NUL'')]]
        else if t = ''courses'' then
          [[(''id'', JNum 4), (''name'', JStr ''Physics''), (''faculty_id'', JNum 2),
            (''institution_id'', JNum 1)]]
        else []),
      next_id = (\<lambda>t. 5)\<rparr>"

definition empty_request :: request where
  "empty_request =
     \<lparr>req_body = [], req_upload = None, req_id = ''5'', body_parse_error = False,
      unexpected_file = False, form_error = None, id_undecodable = False\<rparr>"

text \<open>A request with a JSON body: it carries no file.\<close>

definition json_request :: "(string \<times> jsval) list \<Rightarrow> request" where
  "json_request kvs =
     \<lparr>req_body = kvs, req_upload = None, req_id = [], body_parse_error = False,
      unexpected_file = False, form_error = None, id_undecodable = False\<rparr>"

definition login_request :: "string \<Rightarrow> string \<Rightarrow> request" where
  "login_request email password =
     \<lparr>req_body = [(''email'', JStr email), (''password'', JStr password)],
      req_upload = None, req_id = [], body_parse_error = False,
      unexpected_file = False, form_error = None, id_undecodable = False\<rparr>"

text \<open>Two multipart forms with a file part; the fields of a form are strings.\<close>

definition register_request :: "string \<Rightarrow> request" where
  "register_request mime =
     \<lparr>req_body = [(''name'', JStr ''Ann''), (''email'', JStr ''ann@example.org''),
                  (''password'', JStr ''secret''), (''user_type'', JStr ''student'')],
      req_upload = Some \<lparr>originalname = ''ann.png'', mimetype = mime\<rparr>,
      req_id = [], body_parse_error = False,
      unexpected_file = False, form_error = None, id_undecodable = False\<rparr>"

definition institution_request :: "jsval \<Rightarrow> request" where
  "institution_request students =
     \<lparr>req_body = [(''name'', JStr ''NUL''), (''number_of_students'', students),
                  (''number_of_departments'', JStr ''12''), (''number_of_courses'', JStr ''40'')],
      req_upload = Some \<lparr>originalname = ''nul.gif'', mimetype = ''image/gif''\<rparr>,
      req_id = [], body_parse_error = False,
      unexpected_file = False, form_error = None, id_undecodable = False\<rparr>"

definition sample_file :: stored_file where
  "sample_file = \<lparr>destination = ''uploads/'', filename = ''1700000000000_nul.gif'',
                   path = ''uploads/1700000000000_nul.gif''\<rparr>"

definition sample_application :: request where
  "sample_application =
     \<lparr>req_body =
        [(''studentName'', JStr ''Ann''), (''phoneNumber'', JStr ''555''),
         (''student_id'', JNum 7), (''university'', JStr ''NUL''), (''course_id'', JNum 3),
         (''faculty'', JStr ''Science''), (''majorSubject'', JStr ''Maths''),
         (''grades'', JArr [JObj [(''subject'', JStr ''Maths''), (''grade'', JStr ''A'')],
                           JObj [(''subject'', JStr ''Physics''), (''grade'', JStr ''B'')]])],
      req_upload = None, req_id = [], body_parse_error = False,
      unexpected_file = False, form_error = None, id_undecodable = False\<rparr>"


text \<open>The same application with the student's name sent as an array of four strings.\<close>

definition array_application :: request where
  "array_application =
     json_request
       [(''studentName'', JArr [JStr ''Ann'', JStr ''B'', JStr ''C'', JStr ''D'']),
        (''phoneNumber'', JStr ''555''),
        (''student_id'', JNum 7), (''university'', JStr ''NUL''), (''course_id'', JNum 3),
        (''faculty'', JStr ''Science''), (''majorSubject'', JStr ''Maths''),
        (''grades'', JArr [JObj [(''subject'', JStr ''Maths''), (''grade'', JStr ''A'')],
                          JObj [(''subject'', JStr ''Physics''), (''grade'', JStr ''B'')]])]"

section \<open>Basic facts\<close>

lemma status_respond [simp]: "status_of (respond st v d tr) = Some st"
  by (simp add: status_of_def respond_def)

lemma executed_respond [simp]: "executed (respond st v d tr) = tr"
  by (simp add: respond_def)

lemma database_respond [simp]: "database (respond st v d tr) = d"
  by (simp add: respond_def)

lemma response_respond [simp]:
  "response (respond st v d tr) = Some \<lparr>status = st, json = v\<rparr>"
  by (simp add: respond_def)

lemma has_error_respond [simp]:
  "has_error_message (respond st (error_body msg) d tr) = (msg \<noteq> [])"
  by (simp add: has_error_message_def error_body_def)

lemma rejected_respond [simp]:
  "rejected_400 (respond 400 (error_body msg) d []) d = (msg \<noteq> [])"
  by (simp add: rejected_400_def)

lemma cell_defined [simp]: "cell u c \<noteq> JUndefined"
proof (cases "map_of u c")
  case None
  then show ?thesis by (simp add: cell_def)
next
  case (Some v)
  then show ?thesis by (cases v) (simp_all add: cell_def)
qed

text \<open>The formatting of a string, and the condition it gives.\<close>

lemma escape_string [simp]: "escape (JStr s) = [Lit (JStr s)]"
  by simp

lemma insert_value_literal [simp]: "insert_value e t (Lit v) = Some v"
  by (simp add: insert_value_def)

lemma where_pred_string [simp]:
  "where_pred e t c (JStr s) = Some (\<lambda>r. sql_eq e (cell r c) (JStr s))"
  by (simp add: where_pred_def)


lemma login_query:
  "query e (Select_star_where ''users'' ''email'') [email] d =
     (if query_fails e \<or> where_pred e ''users'' ''email'' email = None then (None, d)
      else (Some (JArr (map (project (columns ''users'')) (matching_users e d email))), d))"
  by (auto simp: query_def matching_users_def split: option.splits)


lemma those_length: "those xs = Some ys \<Longrightarrow> length ys = length xs"
  by (induction xs arbitrary: ys) (auto split: option.splits)

text \<open>An insert that is not rejected: the values after the formatting fill the columns.\<close>

lemma insert_accepted:
  assumes "query e (Insert_into t cols n) ps d = (Some res, d')"
  shows "\<exists>vals. n \<le> length ps
     \<and> \<not> list_ex (\<lambda>p. escape p = []) (take n ps)
     \<and> those (map (insert_value e t) (concat (map escape (take n ps)))) = Some vals
     \<and> length vals = length cols
     \<and> res = ok_packet 1 (next_id d t)
     \<and> d' = d\<lparr>table_rows := (table_rows d)
                 (t := table_rows d t @ [zip cols vals @ [(''id'', JNum (int (next_id d t)))]]),
               next_id := (next_id d)(t := Suc (next_id d t))\<rparr>"
  using assms by (auto simp: query_def split: if_splits option.splits)

lemma single_item: "xs \<noteq> [] \<Longrightarrow> length xs \<le> 1 \<Longrightarrow> \<exists>x. xs = [x]"
  by (cases xs) auto

text \<open>
  Five placeholders for five columns: each parameter is one item, and its value fills the
  column of its position.
\<close>

lemma insert_five:
  assumes "query e (Insert_into t [c1, c2, c3, c4, c5] 5) [p1, p2, p3, p4, p5] d
      = (Some res, d')"
  shows "\<exists>x1 x2 x3 x4 x5 v1 v2 v3 v4 v5.
       escape p1 = [x1] \<and> escape p2 = [x2] \<and> escape p3 = [x3] \<and> escape p4 = [x4]
     \<and> escape p5 = [x5]
     \<and> insert_value e t x1 = Some v1 \<and> insert_value e t x2 = Some v2
     \<and> insert_value e t x3 = Some v3 \<and> insert_value e t x4 = Some v4
     \<and> insert_value e t x5 = Some v5
     \<and> res = ok_packet 1 (next_id d t)
     \<and> table_rows d' t =
         table_rows d t @
           [[(c1, v1), (c2, v2), (c3, v3), (c4, v4), (c5, v5),
             (''id'', JNum (int (next_id d t)))]]"
proof -
  from insert_accepted [OF assms] obtain vals where
    ne: "\<not> list_ex (\<lambda>p. escape p = []) (take 5 [p1, p2, p3, p4, p5])" and
    th: "those (map (insert_value e t)
           (concat (map escape (take 5 [p1, p2, p3, p4, p5])))) = Some vals" and
    len: "length vals = length [c1, c2, c3, c4, c5]" and
    res: "res = ok_packet 1 (next_id d t)" and
    d': "d' = d\<lparr>table_rows := (table_rows d)
                 (t := table_rows d t @
                    [zip [c1, c2, c3, c4, c5] vals @ [(''id'', JNum (int (next_id d t)))]]),
               next_id := (next_id d)(t := Suc (next_id d t))\<rparr>"
    by blast
  from ne have n: "escape p1 \<noteq> []" "escape p2 \<noteq> []" "escape p3 \<noteq> []"
    "escape p4 \<noteq> []" "escape p5 \<noteq> []"
    by simp_all
  then have pos: "1 \<le> length (escape p1)" "1 \<le> length (escape p2)"
    "1 \<le> length (escape p3)" "1 \<le> length (escape p4)" "1 \<le> length (escape p5)"
    by (simp_all add: Suc_le_eq)
  from those_length [OF th] len
  have "length (escape p1) + length (escape p2) + length (escape p3) + length (escape p4)
      + length (escape p5) = 5"
    by simp
  with pos have "length (escape p1) \<le> 1" "length (escape p2) \<le> 1"
    "length (escape p3) \<le> 1" "length (escape p4) \<le> 1" "length (escape p5) \<le> 1"
    by linarith+
  with n obtain x1 x2 x3 x4 x5 where
    x: "escape p1 = [x1]" "escape p2 = [x2]" "escape p3 = [x3]" "escape p4 = [x4]"
       "escape p5 = [x5]"
    using single_item by metis
  from th obtain v1 v2 v3 v4 v5 where
    v: "insert_value e t x1 = Some v1" "insert_value e t x2 = Some v2"
       "insert_value e t x3 = Some v3" "insert_value e t x4 = Some v4"
       "insert_value e t x5 = Some v5" and
    vals: "vals = [v1, v2, v3, v4, v5]"
    by (auto simp: x split: option.splits)
  from x v vals res d' show ?thesis by auto
qed

lemma affected_ok_packet [simp]:
  "js_gt_zero (get_prop (ok_packet n i) ''affectedRows'') = (0 < n)"
  by (simp add: ok_packet_def)

lemma get_prop_project_users_password [simp]:
  "get_prop (project (columns ''users'') u) ''password'' = cell u ''password''"
  by (simp add: project_def columns_def)

lemma login_user_project:
  "login_user (project (columns ''users'') u) =
     JObj [(''id'', cell u ''id''), (''user_type'', cell u ''user_type''),
           (''name'', cell u ''name''), (''email'', cell u ''email''),
           (''profile_picture'', cell u ''profile_picture'')]"
  by (simp add: login_user_def project_def columns_def)

text \<open>The login handler, with the query resolved.\<close>

lemma post_login_unfold:
  "post_login e req d =
     (if js_not (body_field req ''email'') \<or> js_not (body_field req ''password'')
      then respond 400 (error_body ''Please provide both email and password.'') d []
      else if query_fails e \<or> where_pred e ''users'' ''email'' (body_field req ''email'') = None
      then respond 500 (error_body ''Database query error.'') d
             [(Select_star_where ''users'' ''email'', [body_field req ''email''])]
      else (case matching_users e d (body_field req ''email'') of
              [] \<Rightarrow> respond 401 (error_body ''Invalid email or password.'') d
                      [(Select_star_where ''users'' ''email'', [body_field req ''email''])]
            | u # us \<Rightarrow>
                (case bcrypt_compare e (body_field req ''password'') (cell u ''password'') of
                   None \<Rightarrow> respond 500 (error_body ''Database query error.'') d
                      [(Select_star_where ''users'' ''email'', [body_field req ''email''])]
                 | Some ok \<Rightarrow>
                     if ok then
                       respond 200
                         (JObj [(''message'', JStr ''Login successful''),
                                (''user'', login_user (project (columns ''users'') u))])
                         d [(Select_star_where ''users'' ''email'', [body_field req ''email''])]
                     else respond 401 (error_body ''Invalid email or password.'') d
                      [(Select_star_where ''users'' ''email'', [body_field req ''email''])])))"
  by (simp add: post_login_def Let_def login_query split: list.splits option.splits)

text \<open>Validation: a falsy required field, or no file, ends the handler with the 400.\<close>

lemma register_rejects:
  "list_ex (\<lambda>k. js_not (body_field req k)) (required_fields POST_register) \<or> file = None \<Longrightarrow>
     post_register e req file d =
       respond 400
         (error_body ''Please provide name, email, password, user_type, and a profile picture.'')
         d []"
  by (auto simp: post_register_def Let_def)

lemma login_rejects:
  "list_ex (\<lambda>k. js_not (body_field req k)) (required_fields POST_login) \<Longrightarrow>
     post_login e req d =
       respond 400 (error_body ''Please provide both email and password.'') d []"
  by (auto simp: post_login_def Let_def)

lemma institutions_rejects:
  "list_ex (\<lambda>k. js_not (body_field req k)) (required_fields POST_institutions) \<or> file = None \<Longrightarrow>
     post_institutions e req file d =
       respond 400 (error_body ''Please provide all required fields and a logo.'') d []"
  by (auto simp: post_institutions_def Let_def)

lemma faculties_rejects:
  "list_ex (\<lambda>k. js_not (body_field req k)) (required_fields POST_faculties) \<Longrightarrow>
     post_faculties e req d =
       respond 400 (error_body ''Please provide both name and institution.'') d []"
  by (auto simp: post_faculties_def Let_def)

lemma courses_rejects:
  "list_ex (\<lambda>k. js_not (body_field req k)) (required_fields POST_courses) \<Longrightarrow>
     post_courses e req d =
       respond 400 (error_body ''Please provide name, faculty, and institution.'') d []"
  by (auto simp: post_courses_def Let_def)

lemma applications_rejects:
  "list_ex (\<lambda>k. js_not (body_field req k)) (required_fields POST_applications) \<Longrightarrow>
     post_applications e req d = respond 400 (error_body ''All fields are required.'') d []"
  by (auto simp: post_applications_def Let_def)

text \<open>A created user or institution: the row appended to the table.\<close>

lemma register_created:
  assumes "status_of (post_register e req file d) = Some 201"
  shows "\<exists>f h v1 v2 v4. file = Some f
     \<and> bcrypt_hash e (body_field req ''password'') 10 = Some h
     \<and> table_rows (database (post_register e req file d)) ''users'' =
         table_rows d ''users'' @
           [[(''name'', v1), (''email'', v2), (''password'', JStr h), (''user_type'', v4),
             (''profile_picture'', JStr (path f)),
             (''id'', JNum (int (next_id d ''users'')))]]"
proof -
  from assms obtain f where f: "file = Some f"
    by (cases "file") (auto simp: post_register_def Let_def)
  from assms f obtain h where h: "bcrypt_hash e (body_field req ''password'') 10 = Some h"
    by (cases "bcrypt_hash e (body_field req ''password'') 10")
       (auto simp: post_register_def Let_def status_of_def split: if_splits)
  obtain res d' where q: "query e (Insert_into ''users'' register_columns 5)
      [body_field req ''name'', body_field req ''email'', JStr h,
       body_field req ''user_type'', JStr (path f)] d = (res, d')"
    by (cases "query e (Insert_into ''users'' register_columns 5)
      [body_field req ''name'', body_field req ''email'', JStr h,
       body_field req ''user_type'', JStr (path f)] d")
  from assms f h q obtain r where r: "res = Some r"
    and out: "database (post_register e req file d) = d'"
    by (cases res) (auto simp: post_register_def Let_def split: if_splits)
  from insert_five [OF q [unfolded r register_columns_def]] out f h
  show ?thesis by auto
qed

lemma institution_created:
  assumes "status_of (post_institutions e req file d) = Some 201"
  shows "\<exists>f v1 v2 v3 v4. file = Some f
     \<and> table_rows (database (post_institutions e req file d)) ''institutions'' =
         table_rows d ''institutions'' @
           [[(''name'', v1), (''number_of_students'', v2), (''number_of_departments'', v3),
             (''number_of_courses'', v4), (''logo'', JStr (path f)),
             (''id'', JNum (int (next_id d ''institutions'')))]]"
proof -
  from assms obtain f where f: "file = Some f"
    by (cases "file") (auto simp: post_institutions_def Let_def)
  obtain res d' where q: "query e (Insert_into ''institutions'' institution_columns 5)
      [body_field req ''name'', body_field req ''number_of_students'',
       body_field req ''number_of_departments'', body_field req ''number_of_courses'',
       JStr (path f)] d = (res, d')"
    by (cases "query e (Insert_into ''institutions'' institution_columns 5)
      [body_field req ''name'', body_field req ''number_of_students'',
       body_field req ''number_of_departments'', body_field req ''number_of_courses'',
       JStr (path f)] d")
  from assms f q obtain r where r: "res = Some r"
    and out: "database (post_institutions e req file d) = d'"
    by (cases res) (auto simp: post_institutions_def Let_def split: if_splits)
  from insert_five [OF q [unfolded r institution_columns_def]] out f
  show ?thesis by auto
qed

text \<open>The filter of the source accepts or raises an error; it never skips a file.\<close>

lemma fileFilter_Inr: "fileFilter file = Inr accepted \<Longrightarrow> accepted"
  by (auto simp: fileFilter_def Let_def split: if_splits)

lemma upload_single_accepted:
  assumes "req_upload req = Some part" and "upload_single e req = Inr file"
  shows "file = Some \<lparr>destination = ''uploads/'',
                      filename = dec_string (date_now e) @ ''_'' @ originalname part,
                      path = ''uploads/'' @ dec_string (date_now e) @ ''_'' @ originalname part\<rparr>"
  using assms
  by (auto simp: upload_single_def storage_destination_def storage_filename_def
        split: sum.splits option.splits if_splits dest: fileFilter_Inr)

lemma with_upload_created:
  assumes "status_of (serve r e req d) = Some 201"
    and "handler_of r = with_upload h"
  shows "\<exists>file. upload_single e req = Inr file \<and> serve r e req d = h e req file d"
  using assms
  by (auto simp: serve_def error_middleware_def with_upload_def final_handler_def
        split: if_splits sum.splits)

lemmas sample_defs =
  demo_env_def empty_db_def ann_row_def users_db_def catalog_db_def empty_request_def
  json_request_def login_request_def register_request_def institution_request_def
  sample_file_def sample_application_def array_application_def

lemmas run_defs =
  body_field_def js_not_def js_or_def Let_def query_def columns_def project_def cell_def
  digit_char_def error_body_def message_body_def where_pred_def literal_of_def
  insert_value_def matching_users_def matching_institutions_def

section \<open>Applications\<close>

text \<open>The loop collects the eight subjects and the eight grades, in this order.\<close>

lemma grades_loop_from:
  "i \<le> 8 \<Longrightarrow>
     grades_loop grades i subjects gradesValues =
       (subjects @ map (subject_at grades) [i..<8], gradesValues @ map (grade_at grades) [i..<8])"
proof (induction grades i subjects gradesValues rule: grades_loop.induct)
  case (1 grades i subjects gradesValues)
  show ?case
  proof (cases "i < 8")
    case True
    then have u: "[i..<8] = i # [i + 1..<8]" by (simp add: upt_conv_Cons)
    from True have le: "i + 1 \<le> 8" by simp
    show ?thesis
    proof (cases "truthy (get_index grades i)")
      case t: True
      from "1.IH"(1) [OF True t le] True t show ?thesis
        by (subst grades_loop.simps) (simp add: u subject_at_def grade_at_def)
    next
      case f: False
      from "1.IH"(2) [OF True f le] True f show ?thesis
        by (subst grades_loop.simps) (simp add: u subject_at_def grade_at_def)
    qed
  next
    case False
    with "1.prems" have "i = 8" by simp
    then show ?thesis by (subst grades_loop.simps) simp
  qed
qed

lemma application_params_collected:
  "application_params req =
     [body_field req ''studentName'', body_field req ''phoneNumber'',
      body_field req ''student_id'', body_field req ''university'',
      body_field req ''course_id'', body_field req ''faculty'',
      body_field req ''majorSubject'']
     @ map (subject_at (body_field req ''grades'')) [0..<8]
     @ map (grade_at (body_field req ''grades'')) [0..<8]"
proof -
  have s: "js_or (subject_at g i) (JStr []) = subject_at g i" for g i
    by (simp add: subject_at_def js_or_def)
  have g: "js_or (grade_at g i) (JStr []) = grade_at g i" for g i
    by (simp add: grade_at_def js_or_def)
  show ?thesis
    by (simp add: application_params_def grades_loop_from s g del: upt_Suc)
qed

lemma application_params_length: "length (application_params req) = 23"
  by (simp add: application_params_collected)

text \<open>
  With scalar parameters the 20 placeholders give 20 values for the 23 columns, and the
  database rejects the insert: the handler answers 500 and the database is as it was.
\<close>

lemma escape_scalar: "scalar v \<Longrightarrow> escape v = [Lit (escape_plain v)]"
  by (cases v) simp_all

lemma escape_scalars_length:
  "list_all scalar ps \<Longrightarrow> length (concat (map escape ps)) = length ps"
  by (induction ps) (simp_all add: escape_scalar)

lemma scalar_application_rejected:
  assumes "list_all scalar (take 20 (application_params req))"
  shows "query e applications_sql (application_params req) d = (None, d)"
proof -
  have "length (concat (map escape (take 20 (application_params req)))) = 20"
    using escape_scalars_length [OF assms] by (simp add: application_params_length)
  then have "those (map (insert_value e ''applications'')
        (concat (map escape (take 20 (application_params req))))) = Some vals \<Longrightarrow>
      length vals \<noteq> length application_columns" for vals
    by (auto dest!: those_length simp: application_columns_def)
  then show ?thesis
    by (auto simp: query_def applications_sql_def split: option.splits)
qed

lemma scalar_application_not_inserted:
  assumes "list_all scalar (take 20 (application_params req))"
  shows "database (post_applications e req d) = d
     \<and> (status_of (post_applications e req d) = Some 400
          \<or> status_of (post_applications e req d) = Some 500)"
  by (simp add: post_applications_def scalar_application_rejected [OF assms])

lemma sample_params:
  "application_params sample_application =
     [JStr ''Ann'', JStr ''555'', JNum 7, JStr ''NUL'', JNum 3, JStr ''Science'', JStr ''Maths'',
      JStr ''Maths'', JStr ''Physics'', JStr [], JStr [], JStr [], JStr [], JStr [], JStr [],
      JStr ''A'', JStr ''B'', JStr [], JStr [], JStr [], JStr [], JStr [], JStr []]"
  by (simp add: application_params_def sample_application_def body_field_def
        grades_loop.simps js_or_def)

lemma array_params:
  "application_params array_application =
     [JArr [JStr ''Ann'', JStr ''B'', JStr ''C'', JStr ''D''],
      JStr ''555'', JNum 7, JStr ''NUL'', JNum 3, JStr ''Science'', JStr ''Maths'',
      JStr ''Maths'', JStr ''Physics'', JStr [], JStr [], JStr [], JStr [], JStr [], JStr [],
      JStr ''A'', JStr ''B'', JStr [], JStr [], JStr [], JStr [], JStr [], JStr []]"
  by (simp add: application_params_def array_application_def json_request_def body_field_def
        grades_loop.simps js_or_def)

lemma sample_query:
  "query demo_env applications_sql (application_params sample_application) empty_db
     = (None, empty_db)"
  by (rule scalar_application_rejected) (simp add: sample_params)

lemma array_query:
  "query demo_env applications_sql (application_params array_application) empty_db =
     (Some (ok_packet 1 1),
      empty_db\<lparr>table_rows := (table_rows empty_db)
          (''applications'' :=
             [zip application_columns
                [JStr ''Ann'', JStr ''B'', JStr ''C'', JStr ''D'', JStr ''555'', JNum 7,
                 JStr ''NUL'', JNum 3, JStr ''Science'', JStr ''Maths'', JStr ''Maths'',
                 JStr ''Physics'', JStr [], JStr [], JStr [], JStr [], JStr [], JStr [],
                 JStr ''A'', JStr ''B'', JStr [], JStr [], JStr []]
              @ [(''id'', JNum 1)]]),
        next_id := (next_id empty_db)(''applications'' := Suc 1)\<rparr>)"
  by (simp add: array_params query_def applications_sql_def application_columns_def
        demo_env_def empty_db_def)

text \<open>
  C1: a POST /applications request with all required fields and a grades array should
  leave a row with the eight subject/grade pairs, pair \<open>i\<close> in the columns \<open>subjecti\<close> and
  \<open>gradei\<close>. The code does not do this. Its statement names 23 columns and has 20
  placeholders. For a complete application with two graded subjects, all of whose
  parameters are scalars, the database rejects the statement: the handler answers 500
  and the database is as it was. The parameters moreover list the eight subjects before
  the eight grades while the columns alternate, so that the position of column
  \<open>grade1\<close> holds the second subject. The insert is accepted only when the formatting
  of the parameters yields 23 values, as for the same application with the name sent as
  an array of four strings: then the handler answers 201, and the row has the course id
  in \<open>subject1\<close> and the faculty in \<open>grade1\<close>.
\<close>

theorem applications_insert_rejected:
  "applications_sql = Insert_into ''applications'' application_columns 20
   \<and> length application_columns = 23
   \<and> response (post_applications demo_env sample_application empty_db) =
        Some \<lparr>status = 500,
              json = JObj [(''error'', JStr ''Database error during application submission.'')]\<rparr>
   \<and> database (post_applications demo_env sample_application empty_db) = empty_db
   \<and> map_of (zip application_columns (application_params sample_application)) ''subject1'' =
        Some (JStr ''Maths'')
   \<and> map_of (zip application_columns (application_params sample_application)) ''grade1'' =
        Some (JStr ''Physics'')
   \<and> status_of (post_applications demo_env array_application empty_db) = Some 201
   \<and> cell (last (table_rows (database (post_applications demo_env array_application empty_db))
        ''applications'')) ''subject1'' = JNum 3
   \<and> cell (last (table_rows (database (post_applications demo_env array_application empty_db))
        ''applications'')) ''grade1'' = JStr ''Science''"
proof (intro conjI)
  show "applications_sql = Insert_into ''applications'' application_columns 20"
    by (simp add: applications_sql_def)
  show "length application_columns = 23"
    by (simp add: application_columns_def)
  have t: "\<not> (js_not (body_field sample_application ''studentName'')
      \<or> js_not (body_field sample_application ''phoneNumber'')
      \<or> js_not (body_field sample_application ''student_id'')
      \<or> js_not (body_field sample_application ''university'')
      \<or> js_not (body_field sample_application ''course_id'')
      \<or> js_not (body_field sample_application ''faculty'')
      \<or> js_not (body_field sample_application ''majorSubject'')
      \<or> js_not (body_field sample_application ''grades''))"
    by (simp add: sample_application_def body_field_def js_not_def)
  show "response (post_applications demo_env sample_application empty_db) =
        Some \<lparr>status = 500,
              json = JObj [(''error'', JStr ''Database error during application submission.'')]\<rparr>"
    by (simp add: post_applications_def t sample_query error_body_def)
  show "database (post_applications demo_env sample_application empty_db) = empty_db"
    by (simp add: post_applications_def t sample_query)
  show "map_of (zip application_columns (application_params sample_application)) ''subject1'' =
        Some (JStr ''Maths'')"
    by (simp add: sample_params application_columns_def)
  show "map_of (zip application_columns (application_params sample_application)) ''grade1'' =
        Some (JStr ''Physics'')"
    by (simp add: sample_params application_columns_def)
  have a: "\<not> (js_not (body_field array_application ''studentName'')
      \<or> js_not (body_field array_application ''phoneNumber'')
      \<or> js_not (body_field array_application ''student_id'')
      \<or> js_not (body_field array_application ''university'')
      \<or> js_not (body_field array_application ''course_id'')
      \<or> js_not (body_field array_application ''faculty'')
      \<or> js_not (body_field array_application ''majorSubject'')
      \<or> js_not (body_field array_application ''grades''))"
    by (simp add: array_application_def json_request_def body_field_def js_not_def)
  show "status_of (post_applications demo_env array_application empty_db) = Some 201"
    by (simp add: post_applications_def a array_query)
  show "cell (last (table_rows (database (post_applications demo_env array_application empty_db))
        ''applications'')) ''subject1'' = JNum 3"
    by (simp add: post_applications_def a array_query) (simp add: application_columns_def cell_def)
  show "cell (last (table_rows (database (post_applications demo_env array_application empty_db))
        ''applications'')) ''grade1'' = JStr ''Science''"
    by (simp add: post_applications_def a array_query) (simp add: application_columns_def cell_def)
qed

section \<open>Error statuses\<close>




























section \<open>The upload filter\<close>

lemma fileFilter_accepts:
  "fileFilter file = Inr True \<longleftrightarrow>
     occurs_in ''jpeg'' (mimetype file) \<or> occurs_in ''jpg'' (mimetype file)
     \<or> occurs_in ''png'' (mimetype file) \<or> occurs_in ''gif'' (mimetype file)"
  by (simp add: fileFilter_def regex_test_def filetypes_def)

text \<open>
  C3: an upload should be accepted if and only if its MIME type is JPEG, PNG or GIF, as the
  filter's own error message says. The code does not do this. The filter tests whether
  \<open>jpeg\<close>, \<open>jpg\<close>, \<open>png\<close> or \<open>gif\<close> occurs anywhere in the MIME type, so it accepts
  a text file sent as \<open>text/x-gif-notes\<close> and stores it, while the three image types
  are accepted and \<open>application/pdf\<close> is rejected.
\<close>

theorem fileFilter_accepts_other_type:
  "fileFilter \<lparr>originalname = ''notes.txt'', mimetype = ''text/x-gif-notes''\<rparr> = Inr True
   \<and> upload_single demo_env
        (empty_request\<lparr>req_upload :=
           Some \<lparr>originalname = ''notes.txt'', mimetype = ''text/x-gif-notes''\<rparr>\<rparr>) =
       Inr (Some \<lparr>destination = ''uploads/'', filename = ''1700000000000_notes.txt'',
                   path = ''uploads/1700000000000_notes.txt''\<rparr>)
   \<and> fileFilter \<lparr>originalname = ''a.jpg'', mimetype = ''image/jpeg''\<rparr> = Inr True
   \<and> fileFilter \<lparr>originalname = ''a.png'', mimetype = ''image/png''\<rparr> = Inr True
   \<and> fileFilter \<lparr>originalname = ''a.gif'', mimetype = ''image/gif''\<rparr> = Inr True
   \<and> fileFilter \<lparr>originalname = ''a.pdf'', mimetype = ''application/pdf''\<rparr> =
       Inl ''Invalid file type. Only JPEG, PNG, and GIF are allowed.''"
proof (intro conjI)
  show "fileFilter \<lparr>originalname = ''notes.txt'', mimetype = ''text/x-gif-notes''\<rparr> = Inr True"
    by (simp add: fileFilter_accepts)
  then show "upload_single demo_env
        (empty_request\<lparr>req_upload :=
           Some \<lparr>originalname = ''notes.txt'', mimetype = ''text/x-gif-notes''\<rparr>\<rparr>) =
       Inr (Some \<lparr>destination = ''uploads/'', filename = ''1700000000000_notes.txt'',
                   path = ''uploads/1700000000000_notes.txt''\<rparr>)"
    by (simp add: upload_single_def empty_request_def storage_destination_def
          storage_filename_def demo_env_def dec_string.simps digit_char_def)
  show "fileFilter \<lparr>originalname = ''a.jpg'', mimetype = ''image/jpeg''\<rparr> = Inr True"
    by (simp add: fileFilter_accepts)
  show "fileFilter \<lparr>originalname = ''a.png'', mimetype = ''image/png''\<rparr> = Inr True"
    by (simp add: fileFilter_accepts)
  show "fileFilter \<lparr>originalname = ''a.gif'', mimetype = ''image/gif''\<rparr> = Inr True"
    by (simp add: fileFilter_accepts)
  show "fileFilter \<lparr>originalname = ''a.pdf'', mimetype = ''application/pdf''\<rparr> =
       Inl ''Invalid file type. Only JPEG, PNG, and GIF are allowed.''"
    by (simp add: fileFilter_def regex_test_def filetypes_def)
qed

section \<open>Login\<close>

text \<open>
  Where the two rejections agree: with the query accepted, an email that no stored user
  matches and a password for which the comparison with the stored hash yields false are
  both answered 401 with the same body.
\<close>

lemma login_rejections_agree:
  assumes "truthy (body_field req1 ''email'')" and "truthy (body_field req1 ''password'')"
    and "truthy (body_field req2 ''email'')" and "truthy (body_field req2 ''password'')"
    and "\<not> query_fails e"
    and "where_pred e ''users'' ''email'' (body_field req1 ''email'') \<noteq> None"
    and "where_pred e ''users'' ''email'' (body_field req2 ''email'') \<noteq> None"
    and "unknown_email e req1 d"
    and "wrong_password e req2 d"
  shows "response (post_login e req1 d) = response (post_login e req2 d)
    \<and> response (post_login e req1 d) =
        Some \<lparr>status = 401, json = JObj [(''error'', JStr ''Invalid email or password.'')]\<rparr>"
  using assms
  by (auto simp: post_login_unfold js_not_def error_body_def unknown_email_def
        wrong_password_def split: list.splits)

text \<open>
  Where they differ: when the comparison of the password is rejected, a known email is
  answered 500, and an unknown one still 401.
\<close>

lemma login_compare_rejected:
  assumes "truthy (body_field req ''email'')" and "truthy (body_field req ''password'')"
    and "\<not> query_fails e"
    and "matching_users e d (body_field req ''email'') = u # us"
    and "bcrypt_compare e (body_field req ''password'') (cell u ''password'') = None"
  shows "response (post_login e req d) =
        Some \<lparr>status = 500, json = JObj [(''error'', JStr ''Database query error.'')]\<rparr>"
proof -
  from assms(4) have "where_pred e ''users'' ''email'' (body_field req ''email'') \<noteq> None"
    by (auto simp: matching_users_def split: option.splits)
  with assms show ?thesis
    by (simp add: post_login_unfold js_not_def error_body_def)
qed

text \<open>
  C4: two POST /login requests with non-missing email and password, one with an unknown
  email and one with a known email and a password that does not match the stored hash,
  should get the same 401. The code does not do this for every such pair. A password
  that is present but not a string, as the JSON number 123, matches no hash, and
  \<open>bcrypt.compare\<close> rejects it; the rejection is caught by the handler's \<open>catch\<close>, so
  the known email is answered 500 with \<open>Database query error.\<close> while the unknown email,
  for which no comparison is made, is answered 401: the response tells whether the email
  exists. With the string \<open>guess\<close> as the password both are answered 401.
\<close>

theorem login_reveals_known_email:
  "response (post_login demo_env
      (json_request [(''email'', JStr ''ann@example.org''), (''password'', JNum 123)])
      (users_db ''$2b$10$terces'')) =
     Some \<lparr>status = 500, json = JObj [(''error'', JStr ''Database query error.'')]\<rparr>
   \<and> response (post_login demo_env
      (json_request [(''email'', JStr ''bob@example.org''), (''password'', JNum 123)])
      (users_db ''$2b$10$terces'')) =
     Some \<lparr>status = 401, json = JObj [(''error'', JStr ''Invalid email or password.'')]\<rparr>
   \<and> response (post_login demo_env (login_request ''ann@example.org'' ''guess'')
      (users_db ''$2b$10$terces'')) =
     Some \<lparr>status = 401, json = JObj [(''error'', JStr ''Invalid email or password.'')]\<rparr>
   \<and> response (post_login demo_env (login_request ''bob@example.org'' ''guess'')
      (users_db ''$2b$10$terces'')) =
     Some \<lparr>status = 401, json = JObj [(''error'', JStr ''Invalid email or password.'')]\<rparr>"
proof (intro conjI)
  show "response (post_login demo_env
      (json_request [(''email'', JStr ''ann@example.org''), (''password'', JNum 123)])
      (users_db ''$2b$10$terces'')) =
     Some \<lparr>status = 500, json = JObj [(''error'', JStr ''Database query error.'')]\<rparr>"
    by (simp add: post_login_unfold matching_users_def sample_defs body_field_def js_not_def
          cell_def error_body_def)
  show "response (post_login demo_env
      (json_request [(''email'', JStr ''bob@example.org''), (''password'', JNum 123)])
      (users_db ''$2b$10$terces'')) =
     Some \<lparr>status = 401, json = JObj [(''error'', JStr ''Invalid email or password.'')]\<rparr>"
    by (simp add: post_login_unfold matching_users_def sample_defs body_field_def js_not_def
          cell_def error_body_def)
  show "response (post_login demo_env (login_request ''ann@example.org'' ''guess'')
      (users_db ''$2b$10$terces'')) =
     Some \<lparr>status = 401, json = JObj [(''error'', JStr ''Invalid email or password.'')]\<rparr>"
    by (simp add: post_login_unfold matching_users_def sample_defs body_field_def js_not_def
          cell_def error_body_def)
  show "response (post_login demo_env (login_request ''bob@example.org'' ''guess'')
      (users_db ''$2b$10$terces'')) =
     Some \<lparr>status = 401, json = JObj [(''error'', JStr ''Invalid email or password.'')]\<rparr>"
    by (simp add: post_login_unfold matching_users_def sample_defs body_field_def js_not_def
          cell_def error_body_def)
qed

lemma login_success:
  assumes "status_of (post_login e req d) = Some 200"
  shows "\<exists>u us. matching_users e d (body_field req ''email'') = u # us \<and>
     response (post_login e req d) =
       Some \<lparr>status = 200,
             json = JObj [(''message'', JStr ''Login successful''),
                          (''user'', login_user (project (columns ''users'') u))]\<rparr>"
  using assms
  by (auto simp: post_login_unfold split: if_splits list.splits option.splits)

text \<open>
  C9: a successful POST /login response carries a user object with exactly the fields id,
  user_type, name, email and profile_picture, each with the value of the stored row and
  none undefined (so each is serialised); the stored password hash is not among them, and
  two logins that succeed for users equal in every column but the password get the same
  response.
\<close>

theorem login_response_fields:
  assumes "status_of (post_login e1 req1 d1) = Some 200"
    and "status_of (post_login e2 req2 d2) = Some 200"
    and "matching_users e1 d1 (body_field req1 ''email'') = u1 # us1"
    and "matching_users e2 d2 (body_field req2 ''email'') = u2 # us2"
    and "\<forall>c. c \<noteq> ''password'' \<longrightarrow> cell u1 c = cell u2 c"
  shows "response (post_login e1 req1 d1) = response (post_login e2 req2 d2)
     \<and> response (post_login e1 req1 d1) =
         Some \<lparr>status = 200,
               json = JObj [(''message'', JStr ''Login successful''),
                            (''user'',
                             JObj [(''id'', cell u1 ''id''),
                                   (''user_type'', cell u1 ''user_type''),
                                   (''name'', cell u1 ''name''),
                                   (''email'', cell u1 ''email''),
                                   (''profile_picture'', cell u1 ''profile_picture'')])]\<rparr>
     \<and> list_all (\<lambda>c. cell u1 c \<noteq> JUndefined)
          [''id'', ''user_type'', ''name'', ''email'', ''profile_picture'']"
proof -
  from login_success [OF assms(1)] assms(3)
  have r1: "response (post_login e1 req1 d1) =
       Some \<lparr>status = 200,
             json = JObj [(''message'', JStr ''Login successful''),
                          (''user'', login_user (project (columns ''users'') u1))]\<rparr>"
    by auto
  from login_success [OF assms(2)] assms(4)
  have r2: "response (post_login e2 req2 d2) =
       Some \<lparr>status = 200,
             json = JObj [(''message'', JStr ''Login successful''),
                          (''user'', login_user (project (columns ''users'') u2))]\<rparr>"
    by auto
  have "login_user (project (columns ''users'') u1) = login_user (project (columns ''users'') u2)"
    using assms(5) by (simp add: login_user_project)
  with r1 r2 show ?thesis by (simp add: login_user_project)
qed

theorem login_response_fields_witness:
  "status_of (post_login demo_env (login_request ''ann@example.org'' ''secret'')
      (users_db ''$2b$10$terces'')) = Some 200
   \<and> status_of (post_login demo_env (login_request ''ann@example.org'' ''other'')
      (users_db ''$2b$10$rehto'')) = Some 200
   \<and> response (post_login demo_env (login_request ''ann@example.org'' ''secret'')
        (users_db ''$2b$10$terces''))
      = response (post_login demo_env (login_request ''ann@example.org'' ''other'')
        (users_db ''$2b$10$rehto''))
   \<and> response (post_login demo_env (login_request ''ann@example.org'' ''secret'')
        (users_db ''$2b$10$terces''))
      = Some \<lparr>status = 200,
              json = JObj [(''message'', JStr ''Login successful''),
                           (''user'',
                            JObj [(''id'', JNum 1),
                                  (''user_type'', JStr ''student''),
                                  (''name'', JStr ''Ann''),
                                  (''email'', JStr ''ann@example.org''),
                                  (''profile_picture'', JStr ''uploads/1_ann.png'')])]\<rparr>"
proof -
  have s1: "status_of (post_login demo_env (login_request ''ann@example.org'' ''secret'')
      (users_db ''$2b$10$terces'')) = Some 200"
    by (simp add: post_login_unfold matching_users_def sample_defs body_field_def js_not_def
          cell_def)
  have s2: "status_of (post_login demo_env (login_request ''ann@example.org'' ''other'')
      (users_db ''$2b$10$rehto'')) = Some 200"
    by (simp add: post_login_unfold matching_users_def sample_defs body_field_def js_not_def
          cell_def)
  have m1: "matching_users demo_env (users_db ''$2b$10$terces'')
      (body_field (login_request ''ann@example.org'' ''secret'') ''email'')
        = ann_row ''$2b$10$terces'' # []"
    by (simp add: matching_users_def sample_defs body_field_def cell_def)
  have m2: "matching_users demo_env (users_db ''$2b$10$rehto'')
      (body_field (login_request ''ann@example.org'' ''other'') ''email'')
        = ann_row ''$2b$10$rehto'' # []"
    by (simp add: matching_users_def sample_defs body_field_def cell_def)
  have same: "\<forall>c. c \<noteq> ''password'' \<longrightarrow>
      cell (ann_row ''$2b$10$terces'') c = cell (ann_row ''$2b$10$rehto'') c"
    by (simp add: cell_def ann_row_def)
  have cells: "cell (ann_row ''$2b$10$terces'') ''id'' = JNum 1"
    "cell (ann_row ''$2b$10$terces'') ''user_type'' = JStr ''student''"
    "cell (ann_row ''$2b$10$terces'') ''name'' = JStr ''Ann''"
    "cell (ann_row ''$2b$10$terces'') ''email'' = JStr ''ann@example.org''"
    "cell (ann_row ''$2b$10$terces'') ''profile_picture'' = JStr ''uploads/1_ann.png''"
    by (simp_all add: cell_def ann_row_def)
  have r: "response (post_login demo_env (login_request ''ann@example.org'' ''secret'')
        (users_db ''$2b$10$terces''))
      = response (post_login demo_env (login_request ''ann@example.org'' ''other'')
        (users_db ''$2b$10$rehto''))
   \<and> response (post_login demo_env (login_request ''ann@example.org'' ''secret'')
        (users_db ''$2b$10$terces''))
      = Some \<lparr>status = 200,
              json = JObj [(''message'', JStr ''Login successful''),
                           (''user'',
                            JObj [(''id'', JNum 1),
                                  (''user_type'', JStr ''student''),
                                  (''name'', JStr ''Ann''),
                                  (''email'', JStr ''ann@example.org''),
                                  (''profile_picture'', JStr ''uploads/1_ann.png'')])]\<rparr>"
    using login_response_fields [OF s1 s2 m1 m2 same, unfolded cells]
    by (elim conjE) (intro conjI; assumption)
  with s1 s2 show ?thesis by (intro conjI) (elim conjE; assumption)+
qed

section \<open>Registration and stored files\<close>

text \<open>
  C5: after a successful POST /register (status 201) the users table has one more row,
  and its password column holds the string that \<open>bcrypt.hash\<close> returned for the
  submitted password with cost factor 10; so the column holds the plaintext only if the
  hash function returned its own input.
\<close>

theorem register_stores_hash:
  assumes "status_of (post_register e req file d) = Some 201"
  shows "\<exists>h. bcrypt_hash e (body_field req ''password'') 10 = Some h
     \<and> table_rows (database (post_register e req file d)) ''users'' \<noteq> []
     \<and> butlast (table_rows (database (post_register e req file d)) ''users'')
          = table_rows d ''users''
     \<and> cell (last (table_rows (database (post_register e req file d)) ''users'')) ''password''
          = JStr h
     \<and> (JStr h \<noteq> body_field req ''password'' \<longrightarrow>
          cell (last (table_rows (database (post_register e req file d)) ''users'')) ''password''
            \<noteq> body_field req ''password'')"
proof -
  from register_created [OF assms] obtain f h v1 v2 v4 where
    "file = Some f" and
    h: "bcrypt_hash e (body_field req ''password'') 10 = Some h" and
    rows: "table_rows (database (post_register e req file d)) ''users'' =
         table_rows d ''users'' @
           [[(''name'', v1), (''email'', v2), (''password'', JStr h), (''user_type'', v4),
             (''profile_picture'', JStr (path f)),
             (''id'', JNum (int (next_id d ''users'')))]]"
    by blast
  show ?thesis
    by (rule exI [of _ h]) (simp add: h rows cell_def)
qed

theorem register_stores_hash_witness:
  "status_of (post_register demo_env (register_request ''image/png'') (Some sample_file)
      empty_db) = Some 201
   \<and> bcrypt_hash demo_env (JStr ''secret'') 10 = Some ''$2b$10$terces''
   \<and> cell (last (table_rows (database (post_register demo_env (register_request ''image/png'')
        (Some sample_file) empty_db)) ''users'')) ''password'' = JStr ''$2b$10$terces''"
proof -
  have s: "status_of (post_register demo_env (register_request ''image/png'') (Some sample_file)
      empty_db) = Some 201"
    by (simp add: post_register_def query_def register_columns_def demo_env_def
          register_request_def body_field_def js_not_def Let_def)
  have p: "body_field (register_request ''image/png'') ''password'' = JStr ''secret''"
    by (simp add: register_request_def body_field_def)
  have h: "bcrypt_hash demo_env (JStr ''secret'') 10 = Some ''$2b$10$terces''"
    by (simp add: demo_env_def)
  from register_stores_hash [OF s] obtain h' where
    "bcrypt_hash demo_env (body_field (register_request ''image/png'') ''password'') 10 = Some h'"
    and c: "cell (last (table_rows (database (post_register demo_env
        (register_request ''image/png'') (Some sample_file) empty_db)) ''users'')) ''password''
          = JStr h'"
    by blast
  then have "h' = ''$2b$10$terces''" by (simp add: p h)
  with s h c show ?thesis by simp
qed

text \<open>
  C7: an accepted upload is stored in \<open>uploads/\<close> under the timestamp, an underscore and
  the original file name, and when the route then creates the row (status 201), the
  \<open>profile_picture\<close> column of the new user, or the \<open>logo\<close> column of the new
  institution, holds that path.
\<close>

theorem stored_path_persisted:
  "(req_upload req = Some part \<and> upload_single e req = Inr (Some file) \<longrightarrow>
      destination file = ''uploads/''
      \<and> filename file = dec_string (date_now e) @ ''_'' @ originalname part
      \<and> path file = ''uploads/'' @ dec_string (date_now e) @ ''_'' @ originalname part)
   \<and> (req_upload req = Some part \<and> status_of (serve POST_register e req d) = Some 201 \<longrightarrow>
        table_rows (database (serve POST_register e req d)) ''users'' \<noteq> []
        \<and> cell (last (table_rows (database (serve POST_register e req d)) ''users''))
             ''profile_picture''
           = JStr (''uploads/'' @ dec_string (date_now e) @ ''_'' @ originalname part))
   \<and> (req_upload req = Some part \<and> status_of (serve POST_institutions e req d) = Some 201 \<longrightarrow>
        table_rows (database (serve POST_institutions e req d)) ''institutions'' \<noteq> []
        \<and> cell (last (table_rows (database (serve POST_institutions e req d)) ''institutions''))
             ''logo''
           = JStr (''uploads/'' @ dec_string (date_now e) @ ''_'' @ originalname part))"
proof (intro conjI impI)
  assume a: "req_upload req = Some part \<and> upload_single e req = Inr (Some file)"
  then have f: "Some file = Some \<lparr>destination = ''uploads/'',
                      filename = dec_string (date_now e) @ ''_'' @ originalname part,
                      path = ''uploads/'' @ dec_string (date_now e) @ ''_'' @ originalname part\<rparr>"
    using upload_single_accepted by blast
  from f show "destination file = ''uploads/''" by simp
  from f show "filename file = dec_string (date_now e) @ ''_'' @ originalname part" by simp
  from f show "path file = ''uploads/'' @ dec_string (date_now e) @ ''_'' @ originalname part"
    by simp
next
  assume a: "req_upload req = Some part \<and> status_of (serve POST_register e req d) = Some 201"
  then obtain fl where u: "upload_single e req = Inr fl"
    and s: "serve POST_register e req d = post_register e req fl d"
    using with_upload_created [of POST_register e req d post_register] by auto
  from a s have c: "status_of (post_register e req fl d) = Some 201" by simp
  from register_created [OF c] obtain f h v1 v2 v4 where
    f: "fl = Some f" and
    "bcrypt_hash e (body_field req ''password'') 10 = Some h" and
    rows: "table_rows (database (post_register e req fl d)) ''users'' =
         table_rows d ''users'' @
           [[(''name'', v1), (''email'', v2), (''password'', JStr h), (''user_type'', v4),
             (''profile_picture'', JStr (path f)),
             (''id'', JNum (int (next_id d ''users'')))]]"
    by blast
  from upload_single_accepted [of req part e fl] a u f
  have p: "path f = ''uploads/'' @ dec_string (date_now e) @ ''_'' @ originalname part"
    by auto
  show "table_rows (database (serve POST_register e req d)) ''users'' \<noteq> []"
    by (simp add: s rows)
  show "cell (last (table_rows (database (serve POST_register e req d)) ''users''))
             ''profile_picture''
           = JStr (''uploads/'' @ dec_string (date_now e) @ ''_'' @ originalname part)"
    by (simp add: s rows cell_def p)
next
  assume a: "req_upload req = Some part \<and> status_of (serve POST_institutions e req d) = Some 201"
  then obtain fl where u: "upload_single e req = Inr fl"
    and s: "serve POST_institutions e req d = post_institutions e req fl d"
    using with_upload_created [of POST_institutions e req d post_institutions] by auto
  from a s have c: "status_of (post_institutions e req fl d) = Some 201" by simp
  from institution_created [OF c] obtain f v1 v2 v3 v4 where
    f: "fl = Some f" and
    rows: "table_rows (database (post_institutions e req fl d)) ''institutions'' =
         table_rows d ''institutions'' @
           [[(''name'', v1), (''number_of_students'', v2), (''number_of_departments'', v3),
             (''number_of_courses'', v4), (''logo'', JStr (path f)),
             (''id'', JNum (int (next_id d ''institutions'')))]]"
    by blast
  from upload_single_accepted [of req part e fl] a u f
  have p: "path f = ''uploads/'' @ dec_string (date_now e) @ ''_'' @ originalname part"
    by auto
  show "table_rows (database (serve POST_institutions e req d)) ''institutions'' \<noteq> []"
    by (simp add: s rows)
  show "cell (last (table_rows (database (serve POST_institutions e req d)) ''institutions''))
             ''logo''
           = JStr (''uploads/'' @ dec_string (date_now e) @ ''_'' @ originalname part)"
    by (simp add: s rows cell_def p)
qed

lemma demo_timestamp: "dec_string (date_now demo_env) = ''1700000000000''"
  by (simp add: demo_env_def dec_string.simps digit_char_def)

lemma demo_write_ok: "write_error demo_env = None"
  by (simp add: demo_env_def)

lemma register_upload_sample:
  "upload_single demo_env (register_request ''image/png'') =
     Inr (Some \<lparr>destination = ''uploads/'', filename = ''1700000000000_ann.png'',
                 path = ''uploads/1700000000000_ann.png''\<rparr>)"
  by (simp add: upload_single_def register_request_def fileFilter_def regex_test_def
        filetypes_def storage_destination_def storage_filename_def demo_timestamp
        demo_write_ok)

lemma institution_upload_sample:
  "upload_single demo_env (institution_request students) = Inr (Some sample_file)"
  by (simp add: upload_single_def institution_request_def fileFilter_def regex_test_def
        filetypes_def storage_destination_def storage_filename_def demo_timestamp
        demo_write_ok sample_file_def)

theorem stored_path_persisted_witness:
  "upload_single demo_env (register_request ''image/png'') =
     Inr (Some \<lparr>destination = ''uploads/'', filename = ''1700000000000_ann.png'',
                 path = ''uploads/1700000000000_ann.png''\<rparr>)
   \<and> status_of (serve POST_register demo_env (register_request ''image/png'') empty_db)
        = Some 201
   \<and> cell (last (table_rows (database (serve POST_register demo_env
             (register_request ''image/png'') empty_db)) ''users'')) ''profile_picture''
        = JStr ''uploads/1700000000000_ann.png''
   \<and> status_of (serve POST_institutions demo_env (institution_request (JStr ''900'')) empty_db)
        = Some 201
   \<and> cell (last (table_rows (database (serve POST_institutions demo_env
             (institution_request (JStr ''900'')) empty_db)) ''institutions'')) ''logo''
        = JStr ''uploads/1700000000000_nul.gif''"
proof -
  have u: "req_upload (register_request ''image/png'')
      = Some \<lparr>originalname = ''ann.png'', mimetype = ''image/png''\<rparr>"
    by (simp add: register_request_def)
  have v: "req_upload (institution_request (JStr ''900''))
      = Some \<lparr>originalname = ''nul.gif'', mimetype = ''image/gif''\<rparr>"
    by (simp add: institution_request_def)
  have s1: "status_of (serve POST_register demo_env (register_request ''image/png'') empty_db)
        = Some 201"
    by (simp add: serve_def with_upload_def register_upload_sample)
       (simp add: post_register_def query_def register_columns_def demo_env_def
          register_request_def body_field_def js_not_def Let_def)
  have s2: "status_of (serve POST_institutions demo_env (institution_request (JStr ''900''))
      empty_db) = Some 201"
    by (simp add: serve_def with_upload_def institution_upload_sample)
       (simp add: post_institutions_def query_def institution_columns_def demo_env_def
          institution_request_def body_field_def js_not_def Let_def)
  note t1 = stored_path_persisted [of "register_request ''image/png''"
      "\<lparr>originalname = ''ann.png'', mimetype = ''image/png''\<rparr>" demo_env
      sample_file empty_db]
  note t2 = stored_path_persisted [of "institution_request (JStr ''900'')"
      "\<lparr>originalname = ''nul.gif'', mimetype = ''image/gif''\<rparr>" demo_env
      sample_file empty_db]
  have c1: "cell (last (table_rows (database (serve POST_register demo_env
             (register_request ''image/png'') empty_db)) ''users'')) ''profile_picture''
        = JStr ''uploads/1700000000000_ann.png''"
    using t1 u s1 by (simp add: demo_timestamp)
  have c2: "cell (last (table_rows (database (serve POST_institutions demo_env
             (institution_request (JStr ''900'')) empty_db)) ''institutions'')) ''logo''
        = JStr ''uploads/1700000000000_nul.gif''"
    using t2 v s2 by (simp add: demo_timestamp)
  from register_upload_sample s1 c1 s2 c2 show ?thesis
    by (intro conjI)
qed

section \<open>The course listing\<close>

text \<open>
  C8: every row of a successful GET /courses response (status 200) has a
  \<open>requirements\<close> field equal to the constant string
  \<open>High School Diploma, Pass in relevant subjects\<close>, whatever the tables hold.
\<close>

theorem courses_requirements_constant:
  assumes "response (get_courses e req d) = Some r" and "status r = 200"
  shows "\<exists>rows. json r = JArr rows \<and>
     (\<forall>x \<in> set rows. get_prop x ''requirements'' =
         JStr ''High School Diploma, Pass in relevant subjects'')"
  using assms
  by (auto simp: get_courses_def courses_sql_def query_def Let_def respond_def
        requirements_text_def split: if_splits)

theorem courses_requirements_constant_witness:
  "response (get_courses demo_env empty_request catalog_db) =
     Some \<lparr>status = 200,
           json = JArr [JObj [(''id'', JNum 4), (''name'', JStr ''Physics''),
                              (''university'', JStr ''NUL''),
                              (''requirements'',
                               JStr ''High School Diploma, Pass in relevant subjects'')]]\<rparr>
   \<and> get_prop (JObj [(''id'', JNum 4), (''name'', JStr ''Physics''),
                     (''university'', JStr ''NUL''),
                     (''requirements'',
                      JStr ''High School Diploma, Pass in relevant subjects'')])
        ''requirements''
      = JStr ''High School Diploma, Pass in relevant subjects''"
proof -
  have r: "response (get_courses demo_env empty_request catalog_db) =
     Some \<lparr>status = 200,
           json = JArr [JObj [(''id'', JNum 4), (''name'', JStr ''Physics''),
                              (''university'', JStr ''NUL''),
                              (''requirements'',
                               JStr ''High School Diploma, Pass in relevant subjects'')]]\<rparr>"
    by (simp add: get_courses_def courses_sql_def query_def Let_def requirements_text_def
          demo_env_def catalog_db_def cell_def)
  from courses_requirements_constant [OF r] obtain rows where
    "JArr [JObj [(''id'', JNum 4), (''name'', JStr ''Physics''),
                 (''university'', JStr ''NUL''),
                 (''requirements'',
                  JStr ''High School Diploma, Pass in relevant subjects'')]] = JArr rows"
    and a: "\<forall>x \<in> set rows. get_prop x ''requirements'' =
         JStr ''High School Diploma, Pass in relevant subjects''"
    by auto
  then have "JObj [(''id'', JNum 4), (''name'', JStr ''Physics''),
                 (''university'', JStr ''NUL''),
                 (''requirements'',
                  JStr ''High School Diploma, Pass in relevant subjects'')] \<in> set rows"
    by auto
  with a r show ?thesis by blast
qed

section \<open>Validation\<close>

lemma absent_js_not: "absent req k \<Longrightarrow> js_not (body_field req k)"
  by (simp add: absent_def js_not_def)

lemma falsy_js_not: "falsy_present req k \<Longrightarrow> js_not (body_field req k)"
  by (auto simp: falsy_present_def js_not_def)

lemma absent_ex: "list_ex (absent req) ks \<Longrightarrow> list_ex (\<lambda>k. js_not (body_field req k)) ks"
  by (auto simp: list_ex_iff intro: absent_js_not)

lemma falsy_ex:
  "k \<in> set ks \<Longrightarrow> falsy_present req k \<Longrightarrow> list_ex (\<lambda>k. js_not (body_field req k)) ks"
  by (auto simp: list_ex_iff intro: falsy_js_not)

lemma body_field_without [simp]: "body_field (without_field k req) k = JUndefined"
proof -
  have "map_of (filter (\<lambda>kv. fst kv \<noteq> k) kvs) k = None" for kvs :: "(string \<times> jsval) list"
    by (induction kvs) auto
  then show ?thesis by (simp add: body_field_def without_field_def)
qed

lemma removed_ex:
  "k \<in> set ks \<Longrightarrow> list_ex (\<lambda>j. js_not (body_field (without_field k req) j)) ks"
  by (auto simp: list_ex_iff js_not_def intro!: bexI [of _ k])

text \<open>
  C6: when a required field is absent from the body of a POST to /register, /login,
  /institutions, /faculties, /courses or /applications (or, for /register and
  /institutions, \<open>req.file\<close> is absent), the handler answers 400 with an error message,
  passes no statement to \<open>query\<close> and leaves the database as it was.
\<close>

theorem missing_field_rejected:
  "(list_ex (absent req) (required_fields POST_register) \<or> file = None \<longrightarrow>
      rejected_400 (post_register e req file d) d)
   \<and> (list_ex (absent req) (required_fields POST_login) \<longrightarrow>
      rejected_400 (post_login e req d) d)
   \<and> (list_ex (absent req) (required_fields POST_institutions) \<or> file = None \<longrightarrow>
      rejected_400 (post_institutions e req file d) d)
   \<and> (list_ex (absent req) (required_fields POST_faculties) \<longrightarrow>
      rejected_400 (post_faculties e req d) d)
   \<and> (list_ex (absent req) (required_fields POST_courses) \<longrightarrow>
      rejected_400 (post_courses e req d) d)
   \<and> (list_ex (absent req) (required_fields POST_applications) \<longrightarrow>
      rejected_400 (post_applications e req d) d)"
proof (intro conjI impI)
  assume "list_ex (absent req) (required_fields POST_register) \<or> file = None"
  then have "list_ex (\<lambda>k. js_not (body_field req k)) (required_fields POST_register)
      \<or> file = None"
    using absent_ex by blast
  then show "rejected_400 (post_register e req file d) d"
    by (simp only: register_rejects) simp
next
  assume "list_ex (absent req) (required_fields POST_login)"
  then show "rejected_400 (post_login e req d) d"
    by (simp only: login_rejects [OF absent_ex]) simp
next
  assume "list_ex (absent req) (required_fields POST_institutions) \<or> file = None"
  then have "list_ex (\<lambda>k. js_not (body_field req k)) (required_fields POST_institutions)
      \<or> file = None"
    using absent_ex by blast
  then show "rejected_400 (post_institutions e req file d) d"
    by (simp only: institutions_rejects) simp
next
  assume "list_ex (absent req) (required_fields POST_faculties)"
  then show "rejected_400 (post_faculties e req d) d"
    by (simp only: faculties_rejects [OF absent_ex]) simp
next
  assume "list_ex (absent req) (required_fields POST_courses)"
  then show "rejected_400 (post_courses e req d) d"
    by (simp only: courses_rejects [OF absent_ex]) simp
next
  assume "list_ex (absent req) (required_fields POST_applications)"
  then show "rejected_400 (post_applications e req d) d"
    by (simp only: applications_rejects [OF absent_ex]) simp
qed

theorem missing_field_rejected_witness:
  "list_ex (absent (login_request ''ann@example.org'' ''secret''))
       (required_fields POST_register)
   \<and> list_ex (absent empty_request) (required_fields POST_login)
   \<and> list_ex (absent empty_request) (required_fields POST_applications)
   \<and> rejected_400 (post_register demo_env (login_request ''ann@example.org'' ''secret'')
        (Some sample_file) (users_db ''$2b$10$terces'')) (users_db ''$2b$10$terces'')
   \<and> rejected_400 (post_login demo_env empty_request (users_db ''$2b$10$terces''))
        (users_db ''$2b$10$terces'')
   \<and> rejected_400 (post_institutions demo_env empty_request None (users_db ''$2b$10$terces''))
        (users_db ''$2b$10$terces'')
   \<and> rejected_400 (post_faculties demo_env empty_request (users_db ''$2b$10$terces''))
        (users_db ''$2b$10$terces'')
   \<and> rejected_400 (post_courses demo_env empty_request (users_db ''$2b$10$terces''))
        (users_db ''$2b$10$terces'')
   \<and> rejected_400 (post_applications demo_env empty_request (users_db ''$2b$10$terces''))
        (users_db ''$2b$10$terces'')"
proof -
  have a: "list_ex (absent (login_request ''ann@example.org'' ''secret''))
       (required_fields POST_register)"
    by (simp add: absent_def login_request_def body_field_def)
  have b: "list_ex (absent empty_request) (required_fields POST_login)"
    "list_ex (absent empty_request) (required_fields POST_institutions)"
    "list_ex (absent empty_request) (required_fields POST_faculties)"
    "list_ex (absent empty_request) (required_fields POST_courses)"
    "list_ex (absent empty_request) (required_fields POST_applications)"
    by (simp_all add: absent_def empty_request_def body_field_def)
  note t1 = missing_field_rejected [of "login_request ''ann@example.org'' ''secret''"
      "Some sample_file" demo_env "users_db ''$2b$10$terces''"]
  note t2 = missing_field_rejected [of empty_request None demo_env "users_db ''$2b$10$terces''"]
  from t1 a have r1: "rejected_400 (post_register demo_env
      (login_request ''ann@example.org'' ''secret'') (Some sample_file)
      (users_db ''$2b$10$terces'')) (users_db ''$2b$10$terces'')"
    by blast
  from t2 b have r2:
    "rejected_400 (post_login demo_env empty_request (users_db ''$2b$10$terces''))
        (users_db ''$2b$10$terces'')"
    "rejected_400 (post_institutions demo_env empty_request None (users_db ''$2b$10$terces''))
        (users_db ''$2b$10$terces'')"
    "rejected_400 (post_faculties demo_env empty_request (users_db ''$2b$10$terces''))
        (users_db ''$2b$10$terces'')"
    "rejected_400 (post_courses demo_env empty_request (users_db ''$2b$10$terces''))
        (users_db ''$2b$10$terces'')"
    "rejected_400 (post_applications demo_env empty_request (users_db ''$2b$10$terces''))
        (users_db ''$2b$10$terces'')"
    by blast+
  from a b r1 r2 show ?thesis by (intro conjI)
qed

text \<open>
  C10: the presence checks test truthiness. A request with a JSON body can carry 0, the
  empty string or false in a field; when a required field of POST /login, /faculties,
  /courses or /applications has one of these values, the handler answers 400 with its
  message, passes no statement to \<open>query\<close> and leaves the database as it was, and its
  whole outcome is the one it has for the same request with the field removed. The
  handlers of POST /register and /institutions get a file only with a multipart form,
  whose fields are strings: there the falsy value a field can have is the empty string,
  and the same holds for it, with or without a file. A JSON body to these two routes
  carries no file, and the same holds for 0, the empty string and false.
\<close>

theorem falsy_field_rejected:
  "(k \<in> set (required_fields POST_login) \<and> falsy_present req k \<longrightarrow>
      rejected_400 (post_login e req d) d
      \<and> post_login e req d = post_login e (without_field k req) d)
   \<and> (k \<in> set (required_fields POST_faculties) \<and> falsy_present req k \<longrightarrow>
      rejected_400 (post_faculties e req d) d
      \<and> post_faculties e req d = post_faculties e (without_field k req) d)
   \<and> (k \<in> set (required_fields POST_courses) \<and> falsy_present req k \<longrightarrow>
      rejected_400 (post_courses e req d) d
      \<and> post_courses e req d = post_courses e (without_field k req) d)
   \<and> (k \<in> set (required_fields POST_applications) \<and> falsy_present req k \<longrightarrow>
      rejected_400 (post_applications e req d) d
      \<and> post_applications e req d = post_applications e (without_field k req) d)
   \<and> (k \<in> set (required_fields POST_register) \<and> body_field req k = JStr [] \<longrightarrow>
      rejected_400 (post_register e req file d) d
      \<and> post_register e req file d = post_register e (without_field k req) file d)
   \<and> (k \<in> set (required_fields POST_institutions) \<and> body_field req k = JStr [] \<longrightarrow>
      rejected_400 (post_institutions e req file d) d
      \<and> post_institutions e req file d = post_institutions e (without_field k req) file d)
   \<and> (k \<in> set (required_fields POST_register) \<and> falsy_present req k \<longrightarrow>
      rejected_400 (post_register e req None d) d
      \<and> post_register e req None d = post_register e (without_field k req) None d)
   \<and> (k \<in> set (required_fields POST_institutions) \<and> falsy_present req k \<longrightarrow>
      rejected_400 (post_institutions e req None d) d
      \<and> post_institutions e req None d = post_institutions e (without_field k req) None d)"
proof (intro conjI impI)
  assume a: "k \<in> set (required_fields POST_login) \<and> falsy_present req k"
  then have 1: "post_login e req d =
      respond 400 (error_body ''Please provide both email and password.'') d []"
    by (intro login_rejects falsy_ex [of k]) simp_all
  from a have 2: "post_login e (without_field k req) d =
      respond 400 (error_body ''Please provide both email and password.'') d []"
    by (intro login_rejects removed_ex) simp
  show "rejected_400 (post_login e req d) d" by (simp add: 1)
  show "post_login e req d = post_login e (without_field k req) d" by (simp only: 1 2)
next
  assume a: "k \<in> set (required_fields POST_faculties) \<and> falsy_present req k"
  then have 1: "post_faculties e req d =
      respond 400 (error_body ''Please provide both name and institution.'') d []"
    by (intro faculties_rejects falsy_ex [of k]) simp_all
  from a have 2: "post_faculties e (without_field k req) d =
      respond 400 (error_body ''Please provide both name and institution.'') d []"
    by (intro faculties_rejects removed_ex) simp
  show "rejected_400 (post_faculties e req d) d" by (simp add: 1)
  show "post_faculties e req d = post_faculties e (without_field k req) d" by (simp only: 1 2)
next
  assume a: "k \<in> set (required_fields POST_courses) \<and> falsy_present req k"
  then have 1: "post_courses e req d =
      respond 400 (error_body ''Please provide name, faculty, and institution.'') d []"
    by (intro courses_rejects falsy_ex [of k]) simp_all
  from a have 2: "post_courses e (without_field k req) d =
      respond 400 (error_body ''Please provide name, faculty, and institution.'') d []"
    by (intro courses_rejects removed_ex) simp
  show "rejected_400 (post_courses e req d) d" by (simp add: 1)
  show "post_courses e req d = post_courses e (without_field k req) d" by (simp only: 1 2)
next
  assume a: "k \<in> set (required_fields POST_applications) \<and> falsy_present req k"
  then have 1: "post_applications e req d =
      respond 400 (error_body ''All fields are required.'') d []"
    by (intro applications_rejects falsy_ex [of k]) simp_all
  from a have 2: "post_applications e (without_field k req) d =
      respond 400 (error_body ''All fields are required.'') d []"
    by (intro applications_rejects removed_ex) simp
  show "rejected_400 (post_applications e req d) d" by (simp add: 1)
  show "post_applications e req d = post_applications e (without_field k req) d"
    by (simp only: 1 2)
next
  assume a: "k \<in> set (required_fields POST_register) \<and> body_field req k = JStr []"
  then have f: "falsy_present req k" by (simp add: falsy_present_def)
  from a f have 1: "post_register e req file d = respond 400
         (error_body ''Please provide name, email, password, user_type, and a profile picture.'')
         d []"
    by (intro register_rejects disjI1 falsy_ex [of k]) simp_all
  from a have 2: "post_register e (without_field k req) file d = respond 400
         (error_body ''Please provide name, email, password, user_type, and a profile picture.'')
         d []"
    by (intro register_rejects disjI1 removed_ex) simp
  show "rejected_400 (post_register e req file d) d" by (simp add: 1)
  show "post_register e req file d = post_register e (without_field k req) file d"
    by (simp only: 1 2)
next
  assume a: "k \<in> set (required_fields POST_institutions) \<and> body_field req k = JStr []"
  then have f: "falsy_present req k" by (simp add: falsy_present_def)
  from a f have 1: "post_institutions e req file d =
      respond 400 (error_body ''Please provide all required fields and a logo.'') d []"
    by (intro institutions_rejects disjI1 falsy_ex [of k]) simp_all
  from a have 2: "post_institutions e (without_field k req) file d =
      respond 400 (error_body ''Please provide all required fields and a logo.'') d []"
    by (intro institutions_rejects disjI1 removed_ex) simp
  show "rejected_400 (post_institutions e req file d) d" by (simp add: 1)
  show "post_institutions e req file d = post_institutions e (without_field k req) file d"
    by (simp only: 1 2)
next
  assume a: "k \<in> set (required_fields POST_register) \<and> falsy_present req k"
  have 1: "post_register e req None d = respond 400
         (error_body ''Please provide name, email, password, user_type, and a profile picture.'')
         d []"
    by (intro register_rejects disjI2) simp
  have 2: "post_register e (without_field k req) None d = respond 400
         (error_body ''Please provide name, email, password, user_type, and a profile picture.'')
         d []"
    by (intro register_rejects disjI2) simp
  show "rejected_400 (post_register e req None d) d" by (simp add: 1)
  show "post_register e req None d = post_register e (without_field k req) None d"
    by (simp only: 1 2)
next
  assume a: "k \<in> set (required_fields POST_institutions) \<and> falsy_present req k"
  have 1: "post_institutions e req None d =
      respond 400 (error_body ''Please provide all required fields and a logo.'') d []"
    by (intro institutions_rejects disjI2) simp
  have 2: "post_institutions e (without_field k req) None d =
      respond 400 (error_body ''Please provide all required fields and a logo.'') d []"
    by (intro institutions_rejects disjI2) simp
  show "rejected_400 (post_institutions e req None d) d" by (simp add: 1)
  show "post_institutions e req None d = post_institutions e (without_field k req) None d"
    by (simp only: 1 2)
qed

text \<open>
  Requests as the routes receive them. A JSON body with \<open>institution_id\<close> 0 is rejected by
  POST /faculties, and accepted with \<open>institution_id\<close> 1; a JSON body with the password
  \<open>''\<close> is rejected by POST /login and one with the faculty \<open>false\<close> by POST /courses.
  A form with an empty \<open>number_of_students\<close> and a logo is rejected by
  POST /institutions, while the form field \<open>0\<close>, which is the string \<open>'0'\<close>, is accepted.
\<close>

theorem falsy_field_rejected_witness:
  "rejected_400 (post_faculties demo_env
      (json_request [(''name'', JStr ''Science''), (''institution_id'', JNum 0)]) empty_db)
      empty_db
   \<and> post_faculties demo_env
        (json_request [(''name'', JStr ''Science''), (''institution_id'', JNum 0)]) empty_db
      = post_faculties demo_env
          (without_field ''institution_id''
             (json_request [(''name'', JStr ''Science''), (''institution_id'', JNum 0)]))
          empty_db
   \<and> status_of (post_faculties demo_env
        (json_request [(''name'', JStr ''Science''), (''institution_id'', JNum 1)]) empty_db)
      = Some 201
   \<and> rejected_400 (post_login demo_env (login_request ''ann@example.org'' [])
        (users_db ''$2b$10$terces'')) (users_db ''$2b$10$terces'')
   \<and> rejected_400 (post_courses demo_env
        (json_request [(''name'', JStr ''Physics''), (''faculty'', JBool False),
                       (''institution'', JNum 1)]) empty_db) empty_db
   \<and> rejected_400 (post_institutions demo_env (institution_request (JStr []))
        (Some sample_file) empty_db) empty_db
   \<and> post_institutions demo_env (institution_request (JStr [])) (Some sample_file) empty_db
      = post_institutions demo_env
          (without_field ''number_of_students'' (institution_request (JStr [])))
          (Some sample_file) empty_db
   \<and> status_of (post_institutions demo_env (institution_request (JStr ''0''))
        (Some sample_file) empty_db) = Some 201
   \<and> rejected_400 (post_institutions demo_env
        (json_request [(''name'', JStr ''NUL''), (''number_of_students'', JNum 0),
                       (''number_of_departments'', JNum 12), (''number_of_courses'', JNum 40)])
        None empty_db) empty_db"
proof -
  have k1: "''institution_id'' \<in> set (required_fields POST_faculties)"
    and k2: "''password'' \<in> set (required_fields POST_login)"
    and k3: "''faculty'' \<in> set (required_fields POST_courses)"
    and k4: "''number_of_students'' \<in> set (required_fields POST_institutions)"
    by simp_all
  have f1: "falsy_present
      (json_request [(''name'', JStr ''Science''), (''institution_id'', JNum 0)])
      ''institution_id''"
    by (simp add: falsy_present_def json_request_def body_field_def)
  have f2: "falsy_present (login_request ''ann@example.org'' []) ''password''"
    by (simp add: falsy_present_def login_request_def body_field_def)
  have f3: "falsy_present
      (json_request [(''name'', JStr ''Physics''), (''faculty'', JBool False),
                     (''institution'', JNum 1)]) ''faculty''"
    by (simp add: falsy_present_def json_request_def body_field_def)
  have f4: "body_field (institution_request (JStr [])) ''number_of_students'' = JStr []"
    by (simp add: institution_request_def body_field_def)
  have f5: "falsy_present
      (json_request [(''name'', JStr ''NUL''), (''number_of_students'', JNum 0),
                     (''number_of_departments'', JNum 12), (''number_of_courses'', JNum 40)])
      ''number_of_students''"
    by (simp add: falsy_present_def json_request_def body_field_def)
  have r1: "rejected_400 (post_faculties demo_env
      (json_request [(''name'', JStr ''Science''), (''institution_id'', JNum 0)]) empty_db)
      empty_db
   \<and> post_faculties demo_env
        (json_request [(''name'', JStr ''Science''), (''institution_id'', JNum 0)]) empty_db
      = post_faculties demo_env
          (without_field ''institution_id''
             (json_request [(''name'', JStr ''Science''), (''institution_id'', JNum 0)]))
          empty_db"
    using k1 f1 falsy_field_rejected [of "''institution_id''"
        "json_request [(''name'', JStr ''Science''), (''institution_id'', JNum 0)]"
        demo_env empty_db None]
    by blast
  have r2: "rejected_400 (post_login demo_env (login_request ''ann@example.org'' [])
        (users_db ''$2b$10$terces'')) (users_db ''$2b$10$terces'')"
    using k2 f2 falsy_field_rejected [of "''password''" "login_request ''ann@example.org'' []"
        demo_env "users_db ''$2b$10$terces''" None]
    by blast
  have r3: "rejected_400 (post_courses demo_env
        (json_request [(''name'', JStr ''Physics''), (''faculty'', JBool False),
                       (''institution'', JNum 1)]) empty_db) empty_db"
    using k3 f3 falsy_field_rejected [of "''faculty''"
        "json_request [(''name'', JStr ''Physics''), (''faculty'', JBool False),
                       (''institution'', JNum 1)]" demo_env empty_db None]
    by blast
  have r4: "rejected_400 (post_institutions demo_env (institution_request (JStr []))
        (Some sample_file) empty_db) empty_db
   \<and> post_institutions demo_env (institution_request (JStr [])) (Some sample_file) empty_db
      = post_institutions demo_env
          (without_field ''number_of_students'' (institution_request (JStr [])))
          (Some sample_file) empty_db"
    using k4 f4 falsy_field_rejected [of "''number_of_students''"
        "institution_request (JStr [])" demo_env empty_db "Some sample_file"]
    by blast
  have r5: "rejected_400 (post_institutions demo_env
        (json_request [(''name'', JStr ''NUL''), (''number_of_students'', JNum 0),
                       (''number_of_departments'', JNum 12), (''number_of_courses'', JNum 40)])
        None empty_db) empty_db"
    using k4 f5 falsy_field_rejected [of "''number_of_students''"
        "json_request [(''name'', JStr ''NUL''), (''number_of_students'', JNum 0),
                       (''number_of_departments'', JNum 12), (''number_of_courses'', JNum 40)]"
        demo_env empty_db None]
    by blast
  have c1: "status_of (post_faculties demo_env
        (json_request [(''name'', JStr ''Science''), (''institution_id'', JNum 1)]) empty_db)
      = Some 201"
    by (simp add: post_faculties_def query_def demo_env_def json_request_def body_field_def
          js_not_def Let_def)
  have c2: "status_of (post_institutions demo_env (institution_request (JStr ''0''))
        (Some sample_file) empty_db) = Some 201"
    by (simp add: post_institutions_def query_def institution_columns_def demo_env_def
          institution_request_def body_field_def js_not_def Let_def)
  from r1 r2 r3 r4 r5 c1 c2 show ?thesis by (intro conjI) (elim conjE; assumption)+
qed

end
